theory Spec2Isabelle
  imports Complex_Main "HOL-Library.Signed_Division" "HOL-Library.AList" "HOL-Library.Word"
    "HOL-Library.Log_Nat"
begin

section \<open>Errors and machine integers\<close>

text \<open>
  Every \<^verbatim>\<open>CHECK\<close> of \<^verbatim>\<open>kvstore_dist_server.h\<close> that fails, every exception and
  every way of not returning is a value of \<open>error\<close>; a function that can fail returns
  \<open>error + 'a\<close> with \<open>Inl\<close> for the failure. The first five constructors are the error
  kinds of the specification; \<open>CheckFailed\<close> stands for the remaining assertions,
  \<open>UndefinedBehaviour\<close> for signed overflow, an out-of-range conversion and a read outside
  a buffer, and \<open>NeverReturns\<close> for a call that blocks forever.
\<close>

datatype error =
    MalformedRequest
  | NotInitialized
  | UnsupportedMode
  | ConfigurationRace
  | PoolStopped
  | CheckFailed
  | UndefinedBehaviour
  | NeverReturns

text \<open>The values of a C++ \<^verbatim>\<open>int\<close> (32 bits, two's complement).\<close>

definition int_ok :: "int \<Rightarrow> bool" where
  "int_ok v \<longleftrightarrow> - 2147483648 \<le> v \<and> v \<le> 2147483647"


section \<open>Command types: Cantor pairing of request type and dtype\<close>

text \<open>
  \<^verbatim>\<open>enum class RequestType { kDefaultPushPull, kRowSparsePushPull, kCompressedPushPull }\<close>.
  The enumeration has underlying type \<^verbatim>\<open>int\<close>, and \<^verbatim>\<open>static_cast<RequestType>(x)\<close>
  in \<^verbatim>\<open>DepairDataHandleType\<close> yields a value for every \<open>x\<close>; \<open>kRequestTypeOther x\<close> is
  such a value outside the three enumerators.
\<close>

datatype RequestType =
    kDefaultPushPull
  | kRowSparsePushPull
  | kCompressedPushPull
  | kRequestTypeOther int

fun int_of_RequestType :: "RequestType \<Rightarrow> int" where
  "int_of_RequestType kDefaultPushPull = 0"
| "int_of_RequestType kRowSparsePushPull = 1"
| "int_of_RequestType kCompressedPushPull = 2"
| "int_of_RequestType (kRequestTypeOther x) = x"

definition RequestType_of_int :: "int \<Rightarrow> RequestType" where
  "RequestType_of_int x =
     (if x = 0 then kDefaultPushPull
      else if x = 1 then kRowSparsePushPull
      else if x = 2 then kCompressedPushPull
      else kRequestTypeOther x)"

record DataHandleType =
  requestType :: RequestType
  dtype :: int

text \<open>
  \<^verbatim>\<open>GetCommandType\<close>: \<^verbatim>\<open>(((m + d) * (m + d + 1)) / 2) + d\<close> on \<^verbatim>\<open>int\<close>. Each
  intermediate value must be an \<^verbatim>\<open>int\<close>; signed overflow is undefined behaviour. The
  division is C++'s, truncating towards zero.
\<close>

definition GetCommandType :: "RequestType \<Rightarrow> int \<Rightarrow> error + int" where
  "GetCommandType request_type d =
     (let m = int_of_RequestType request_type in
      if \<not> int_ok (m + d) then Inl UndefinedBehaviour
      else if \<not> int_ok (m + d + 1) then Inl UndefinedBehaviour
      else if \<not> int_ok ((m + d) * (m + d + 1)) then Inl UndefinedBehaviour
      else if \<not> int_ok (((m + d) * (m + d + 1)) sdiv 2 + d) then Inl UndefinedBehaviour
      else Inr (((m + d) * (m + d + 1)) sdiv 2 + d))"

text \<open>
  The integer square root, by halving: the executable counterpart of
  \<^verbatim>\<open>std::floor(std::sqrt(n))\<close>; lemma \<open>floor_sqrt_real\<close> below relates it to the real
  square root.
\<close>

fun floor_sqrt :: "nat \<Rightarrow> nat" where
  "floor_sqrt n =
     (if n < 2 then n
      else (let r = 2 * floor_sqrt (n div 4)
            in if (r + 1) * (r + 1) \<le> n then r + 1 else r))"

declare floor_sqrt.simps [simp del]

text \<open>
  \<^verbatim>\<open>DepairDataHandleType\<close>:
  \<^verbatim>\<open>w = floor((sqrt(8 * cmd + 1) - 1) / 2); t = (w * w + w) / 2; y = cmd - t; x = w - y\<close>,
  then \<^verbatim>\<open>CHECK_GE(x, 0)\<close> and \<^verbatim>\<open>CHECK_GE(y, 0)\<close>. The argument \<^verbatim>\<open>8 * cmd + 1\<close> is
  computed on \<^verbatim>\<open>int\<close> before the conversion to \<^verbatim>\<open>double\<close>, so it can overflow; for a
  negative argument \<^verbatim>\<open>std::sqrt\<close> gives NaN, whose conversion to \<^verbatim>\<open>int\<close> is undefined.
  The double arithmetic is taken as exact: a 32-bit argument and its correctly rounded
  root are far inside the 53 bits of a double, and lemma \<open>floor_half_sqrt\<close> shows that the
  expression below is the floor of the real one. With \<open>8 * cmd + 1\<close> an \<^verbatim>\<open>int\<close>, \<open>w\<close> is at
  most 23169 and the remaining operations cannot overflow.
\<close>

definition DepairDataHandleType :: "int \<Rightarrow> error + DataHandleType" where
  "DepairDataHandleType cmd =
     (if \<not> int_ok (8 * cmd) \<or> \<not> int_ok (8 * cmd + 1) then Inl UndefinedBehaviour
      else if 8 * cmd + 1 < 0 then Inl UndefinedBehaviour
      else
        (let w = (int (floor_sqrt (nat (8 * cmd + 1))) - 1) div 2;
             t = ((w * w) + w) sdiv 2;
             y = cmd - t;
             x = w - y
         in if \<not> 0 \<le> x then Inl CheckFailed
            else if \<not> 0 \<le> y then Inl CheckFailed
            else Inr \<lparr>requestType = RequestType_of_int x, dtype = y\<rparr>))"

section \<open>The serial executor\<close>

text \<open>
  \<^verbatim>\<open>class Executor\<close>. A \<^verbatim>\<open>Block\<close> holds a closure \<^verbatim>\<open>f\<close> (an empty
  \<^verbatim>\<open>std::function\<close> is \<open>None\<close>: the block that \<^verbatim>\<open>Stop\<close> submits) and a promise
  \<^verbatim>\<open>p\<close>, identified here by a number. A closure acts on the state \<open>'u\<close> of the
  embedding program. The fields are \<open>blk_f\<close> and \<open>blk_p\<close> because \<open>f\<close> and \<open>p\<close>
  are wanted as variables.
\<close>

record 'u Block =
  blk_f :: "('u \<Rightarrow> 'u) option"
  blk_p :: nat

text \<open>
  The executor: its queue, whether a thread is inside the loop of \<^verbatim>\<open>Start\<close>, the
  promises whose value has been set, and the number of the next promise to be made.
  The mutex and the condition variable only serialise access to the queue. Member names
  are written without their trailing underscore (\<open>queue\<close> for \<^verbatim>\<open>queue_\<close>).
\<close>

record 'u Executor =
  queue :: "'u Block list"
  in_Start :: bool
  promises_set :: "nat set"
  next_promise :: nat

text \<open>
  The body of \<^verbatim>\<open>Start\<close>'s loop, run on the queue as it is: take the front block; if
  it has a closure run it and set the promise, else set the promise and \<^verbatim>\<open>break\<close>. On
  an empty queue the thread waits on the condition variable, still inside the loop. The
  result is the remaining queue, the promises set, the program state and whether the
  thread is still inside the loop.
\<close>

fun Start_loop :: "'u Block list \<Rightarrow> nat set \<Rightarrow> 'u \<Rightarrow> 'u Block list \<times> nat set \<times> 'u \<times> bool" where
  "Start_loop [] ps u = ([], ps, u, True)"
| "Start_loop (blk # q) ps u =
     (case blk_f blk of
        Some g \<Rightarrow> Start_loop q (insert (blk_p blk) ps) (g u)
      | None \<Rightarrow> (q, insert (blk_p blk) ps, u, False))"

text \<open>\<^verbatim>\<open>Start\<close>: the calling thread enters the loop and serves the queue.\<close>

definition Start :: "'u Executor \<times> 'u \<Rightarrow> 'u Executor \<times> 'u" where
  "Start eu =
     (let (e, u) = eu;
          (q, ps, u', running) = Start_loop (queue e) (promises_set e) u
      in (e\<lparr>queue := q, in_Start := running, promises_set := ps\<rparr>, u'))"

text \<open>
  \<^verbatim>\<open>Exec\<close>: make a block with a new promise, push it, notify, and wait on the
  promise's future. The thread inside \<^verbatim>\<open>Start\<close>, if there is one, serves the queue;
  the call returns once the promise of its own block has been set. If no thread is
  inside \<^verbatim>\<open>Start\<close>, or that thread leaves the loop before it reaches the block, the
  promise is never set and the wait does not end: the result is \<open>None\<close>.
\<close>

definition Exec :: "('u \<Rightarrow> 'u) option \<Rightarrow> 'u Executor \<times> 'u \<Rightarrow> ('u Executor \<times> 'u) option" where
  "Exec func eu =
     (let (e, u) = eu;
          blk = \<lparr>blk_f = func, blk_p = next_promise e\<rparr>;
          e1 = e\<lparr>queue := queue e @ [blk], next_promise := next_promise e + 1\<rparr>;
          (e2, u2) = (if in_Start e1 then Start (e1, u) else (e1, u))
      in if blk_p blk \<in> promises_set e2 then Some (e2, u2) else None)"

text \<open>\<^verbatim>\<open>Stop() { Exec(Func()); }\<close>\<close>

definition Stop :: "'u Executor \<times> 'u \<Rightarrow> ('u Executor \<times> 'u) option" where
  "Stop eu = Exec None eu"

text \<open>Promise numbers in use are below the next one to be made.\<close>

definition Executor_ok :: "'u Executor \<Rightarrow> bool" where
  "Executor_ok e \<longleftrightarrow>
     (\<forall>n \<in> promises_set e. n < next_promise e) \<and>
     (\<forall>b \<in> set (queue e). blk_p b < next_promise e)"

section \<open>Model distribution\<close>

text \<open>
  Arithmetic on \<^verbatim>\<open>double\<close> (IEEE 754 binary64, round to nearest, ties to even): the
  result of an operation is the exact result rounded to 53 significant bits.
  \<open>binary_exponent x\<close> is the \<open>e\<close> with \<open>2^e \<le> x < 2^(e+1)\<close> for a positive \<open>x\<close>
  (lemma \<open>binary_exponent_bounds\<close>), \<open>round_half_even\<close> rounds to the nearest integer,
  and \<open>round_double x\<close> is the double nearest to \<open>x\<close>. The exponent range is not
  modelled: the values rounded below are 0 or have a magnitude between \<open>10^-10\<close> and
  \<open>2^64\<close>, where every double is normal.
\<close>

definition binary_exponent :: "real \<Rightarrow> int" where
  "binary_exponent x = (if 1 \<le> x then bitlen \<lfloor>x\<rfloor> - 1 else - bitlen (\<lceil>1 / x\<rceil> - 1))"

definition round_half_even :: "real \<Rightarrow> int" where
  "round_half_even x =
     (let f = \<lfloor>x\<rfloor>; r = x - of_int f
      in if r < 1 / 2 then f else if 1 / 2 < r then f + 1 else if even f then f else f + 1)"

definition round_double :: "real \<Rightarrow> real" where
  "round_double x =
     (if x = 0 then 0
      else (let e = binary_exponent \<bar>x\<bar> - 52
            in of_int (round_half_even (x / power_int 2 e)) * power_int 2 e))"




text \<open>
  \<^verbatim>\<open>ps::KVPairs<char>\<close>: keys (64-bit unsigned, as natural numbers; \<open>DecodeKey\<close>
  below writes the wrap-around out), payload bytes and lengths.
\<close>

type_synonym Key = nat
type_synonym byte = "8 word"

record KVPairs =
  keys :: "Key list"
  vals :: "byte list"
  lens :: "int list"

text \<open>
  Modelled from the spec: the control markers of the transport, of which
  \<^verbatim>\<open>LOCAL_AGGREGATION\<close>, \<^verbatim>\<open>INIT\<close> and \<^verbatim>\<open>MODEL_DISTRIBUTION\<close> are used by the server
  (\<^verbatim>\<open>ps/internal/message.h\<close> is not part of the sources); \<open>EMPTY\<close> stands for every
  other marker.
\<close>

datatype Control = EMPTY | LOCAL_AGGREGATION | INIT | MODEL_DISTRIBUTION

text \<open>The fields of \<^verbatim>\<open>ps::KVMeta\<close> that the server reads.\<close>

record KVMeta =
  cmd :: int
  push :: bool
  pull :: bool
  sender :: int
  timestamp :: int
  num_merge :: int
  control_cmd :: Control
  num_aggregation :: int
  meta_key :: int










section \<open>The parameter server: data\<close>

text \<open>
  \<^verbatim>\<open>NDArray\<close> is a handle of the tensor engine (\<^verbatim>\<open>mxnet/ndarray.h\<close>, not part of the
  sources). The model keeps what the server reads of it: storage type, shape, element
  type flag, the bytes of the value blob behind \<^verbatim>\<open>data().dptr_\<close> and, for row-sparse
  storage, the row indices. A handle that holds no array (\<^verbatim>\<open>is_none()\<close>) is \<open>None\<close>
  of \<open>NDArray option\<close>. A freshly constructed array has no bytes written yet.
\<close>

datatype NDArrayStorageType = kDefaultStorage | kRowSparseStorage

record NDArray =
  nd_storage_type :: NDArrayStorageType
  nd_shape :: "nat list"
  nd_dtype :: int
  nd_data :: "byte list"
  nd_idx :: "int list"

definition NDArray_new :: "NDArrayStorageType \<Rightarrow> nat list \<Rightarrow> int \<Rightarrow> NDArray" where
  "NDArray_new stype shp dt =
     \<lparr>nd_storage_type = stype, nd_shape = shp, nd_dtype = dt, nd_data = [], nd_idx = []\<rparr>"

text \<open>\<^verbatim>\<open>NDArray(recv_blob, 0)\<close>: a dense array over the payload of a request.\<close>

definition NDArray_of_blob :: "nat list \<Rightarrow> int \<Rightarrow> byte list \<Rightarrow> NDArray" where
  "NDArray_of_blob shp dt bs =
     \<lparr>nd_storage_type = kDefaultStorage, nd_shape = shp, nd_dtype = dt, nd_data = bs, nd_idx = []\<rparr>"

text \<open>
  The process environment and the collaborators outside the sources, as parameters:
  the two environment flags, the transport's worker count and the start of this server's
  key range, mshadow's type flag of float32, its \<^verbatim>\<open>mshadow_sizeof\<close> and the type flags
  that its macro \<^verbatim>\<open>MSHADOW_REAL_TYPE_SWITCH\<close> accepts (the floating-point types; for
  every other flag the macro ends in \<^verbatim>\<open>LOG(FATAL)\<close>), the engine's
  copy (\<^verbatim>\<open>CopyFromTo\<close>, \<^verbatim>\<open>ndarray::Copy\<close>), its additions (\<^verbatim>\<open>+=\<close> and the row-sparse
  \<^verbatim>\<open>ElemwiseBinaryOp\<close> plus), the codec's \<^verbatim>\<open>Dequantize\<close> and the profiler's command
  handler. Each engine operation is given as the function from its operands to the new
  value of its destination. Failures raised inside the engine, the codec and the
  transport are not modelled.
\<close>

record Env =
  ENABLE_LEMETHOD :: bool
  ENABLE_TSENGINE :: bool
  NumWorkers :: nat
  key_range_begin :: nat
  kFloat32 :: int
  mshadow_sizeof :: "int \<Rightarrow> nat"
  MSHADOW_REAL_TYPE :: "int \<Rightarrow> bool"
  CopyFromTo :: "NDArray \<Rightarrow> NDArray \<Rightarrow> NDArray"
  ndarray_Copy :: "NDArray \<Rightarrow> NDArray \<Rightarrow> byte list"
  plus_assign :: "NDArray \<Rightarrow> NDArray \<Rightarrow> NDArray"
  elemwise_plus :: "NDArray \<Rightarrow> NDArray \<Rightarrow> NDArray \<Rightarrow> NDArray"
  Dequantize :: "string \<Rightarrow> NDArray \<Rightarrow> NDArray \<Rightarrow> NDArray"
  ProcessServerProfilerCommands :: "string \<Rightarrow> error option"

text \<open>\<^verbatim>\<open>struct UpdateBuf\<close>.\<close>

record UpdateBuf =
  request :: "KVMeta list"
  merged :: "NDArray option"
  temp_array :: "NDArray option"

text \<open>The entry that \<^verbatim>\<open>update_buf_[key]\<close> creates for a new key.\<close>

definition UpdateBuf_empty :: UpdateBuf where
  "UpdateBuf_empty = \<lparr>request = [], merged = None, temp_array = None\<rparr>"

text \<open>
  \<^verbatim>\<open>MyThreadPool\<close>, as far as the server uses it: the stop flag and the queue of
  tasks. A task of the server is a call of \<^verbatim>\<open>ModelDistribution\<close>, kept as its
  arguments. \<^verbatim>\<open>enqueue\<close> throws on a stopped pool.
\<close>

record MyThreadPool =
  stop :: bool
  tasks :: "(KVMeta \<times> KVPairs) list"

definition enqueue :: "KVMeta \<times> KVPairs \<Rightarrow> MyThreadPool \<Rightarrow> error + MyThreadPool" where
  "enqueue task pool =
     (if stop pool then Inl PoolStopped else Inr (pool\<lparr>tasks := tasks pool @ [task]\<rparr>))"

text \<open>\<^verbatim>\<open>ps::SimpleData\<close>: the head and the body of a command.\<close>

record SimpleData =
  head :: int
  body :: string

text \<open>
  What the server hands to the transport and to user code, in order:
  \<^verbatim>\<open>server->Response(meta)\<close>, \<^verbatim>\<open>server->Response(meta, kvs)\<close>,
  \<^verbatim>\<open>server->AutoPullUpdate(version, meta, kvs)\<close>, \<^verbatim>\<open>app->Response(recved)\<close>,
  \<^verbatim>\<open>NoticeWorkersOneIterationFinish()\<close>, a call of the updater (key, update, stored), a
  call of the controller, a command for the profiler, and an exception that leaves
  \<^verbatim>\<open>exec_.Start()\<close> on the thread that called \<^verbatim>\<open>Run()\<close>.
\<close>

datatype event =
    Response KVMeta
  | ResponseKV KVMeta KVPairs
  | AutoPullUpdate int KVMeta KVPairs
  | AppResponse SimpleData
  | NoticeWorkersOneIterationFinish
  | UpdaterCall int NDArray NDArray
  | ControllerCall int string
  | ProfilerCommand string
  | StartThrows error

text \<open>
  The members of \<^verbatim>\<open>KVStoreDistServer\<close>, without their trailing underscore.
  \<^item> \<open>store\<close> is an association list, since \<^verbatim>\<open>CreateMultiPrecisionCopies\<close> iterates
    over it; the other maps are functions. \<^verbatim>\<open>store_[key]\<close> on a new key inserts a handle
    that holds no array; the model does not tell such an entry from a missing one.
  \<^item> \<open>update_buf\<close> and \<open>store_v\<close> are total: \<^verbatim>\<open>operator[]\<close> creates an empty
    \<^verbatim>\<open>UpdateBuf\<close> and a version 0 for a new key.
  \<^item> \<open>updater\<close> maps key, update and stored tensor to the new stored tensor;
    \<open>controller_set\<close> says whether a controller has been set.
  \<^item> \<open>exec_in_Start\<close> says whether a thread is inside \<^verbatim>\<open>exec_.Start()\<close>. Request
    handlers run one at a time here, so the executor's queue is empty when a handler calls
    \<^verbatim>\<open>exec_.Exec\<close>; by lemma \<open>Exec_empty_queue\<close> the call then runs the closure and
    returns if a thread is inside \<^verbatim>\<open>Start\<close>, and never returns otherwise. A closure
    that throws ends \<^verbatim>\<open>Start\<close> on its thread.
  \<^item> \<open>num_aggregation_member\<close> is \<^verbatim>\<open>num_aggregation_\<close> (the field of that name of
    \<open>KVMeta\<close> is \<open>num_aggregation\<close>).
  \<^item> \<open>outbox\<close> collects the events. \<^verbatim>\<open>log_verbose_\<close> only switches logging and is
    left out.
\<close>

record KVStoreDistServer =
  sync_mode :: bool
  controller_set :: bool
  updater :: "(int \<Rightarrow> NDArray \<Rightarrow> NDArray \<Rightarrow> NDArray) option"
  store :: "(int \<times> NDArray) list"
  store_realt :: "int \<Rightarrow> NDArray option"
  update_buf :: "int \<Rightarrow> UpdateBuf"
  decomp_buf :: "int \<Rightarrow> NDArray option"
  exec_in_Start :: bool
  multi_precision :: bool
  gradient_compression :: string
  threadPool :: MyThreadPool
  num_aggregation_member :: int
  iteration :: int
  store_v :: "int \<Rightarrow> int"
  outbox :: "event list"

definition emit :: "event \<Rightarrow> KVStoreDistServer \<Rightarrow> KVStoreDistServer" where
  "emit ev s = s\<lparr>outbox := outbox s @ [ev]\<rparr>"

text \<open>
  \<^verbatim>\<open>DecodeKey\<close>: \<^verbatim>\<open>key - kr.begin()\<close> on 64-bit unsigned integers, returned as
  \<^verbatim>\<open>int\<close>: the low 32 bits, read as two's complement.
\<close>

definition int32_of :: "int \<Rightarrow> int" where
  "int32_of v = (let r = v mod 4294967296 in if r < 2147483648 then r else r - 4294967296)"

definition DecodeKey :: "Env \<Rightarrow> Key \<Rightarrow> int" where
  "DecodeKey env k = int32_of ((int k - int (key_range_begin env)) mod 18446744073709551616)"

text \<open>\<^verbatim>\<open>(size_t) v\<close> for an \<^verbatim>\<open>int\<close> \<open>v\<close>.\<close>

definition size_t_of_int :: "int \<Rightarrow> nat" where
  "size_t_of_int v = nat (v mod 18446744073709551616)"

definition has_multi_precision_copy :: "Env \<Rightarrow> KVStoreDistServer \<Rightarrow> DataHandleType \<Rightarrow> bool" where
  "has_multi_precision_copy env s ty \<longleftrightarrow> multi_precision s \<and> dtype ty \<noteq> kFloat32 env"

text \<open>
  \<^verbatim>\<open>auto& stored = has_multi_precision_copy(type) ? store_realt_[key] : store_[key]\<close>:
  reading and writing through the reference.
\<close>

definition get_stored :: "Env \<Rightarrow> KVStoreDistServer \<Rightarrow> DataHandleType \<Rightarrow> int \<Rightarrow> NDArray option" where
  "get_stored env s ty key =
     (if has_multi_precision_copy env s ty then store_realt s key else map_of (store s) key)"

definition set_stored :: "Env \<Rightarrow> DataHandleType \<Rightarrow> int \<Rightarrow> NDArray \<Rightarrow> KVStoreDistServer \<Rightarrow> KVStoreDistServer" where
  "set_stored env ty key v s =
     (if has_multi_precision_copy env s ty then s\<lparr>store_realt := (store_realt s)(key \<mapsto> v)\<rparr>
      else s\<lparr>store := AList.update key v (store s)\<rparr>)"

definition set_update_buf :: "int \<Rightarrow> UpdateBuf \<Rightarrow> KVStoreDistServer \<Rightarrow> KVStoreDistServer" where
  "set_update_buf key ub s = s\<lparr>update_buf := (update_buf s)(key := ub)\<rparr>"

section \<open>The parameter server: responses and the update dispatcher\<close>

text \<open>
  \<^verbatim>\<open>DefaultStorageResponse\<close>: \<^verbatim>\<open>CHECK(!stored.is_none())\<close> on \<^verbatim>\<open>store_[key]\<close>, then
  the reply with the bytes of the stored tensor and one length entry, an \<^verbatim>\<open>int\<close>
  (\<^verbatim>\<open>len\<close> itself is a \<^verbatim>\<open>size_t\<close>). The \<^verbatim>\<open>WaitToRead\<close> calls are fences of the
  engine and change nothing here.
\<close>

definition DefaultStorageResponse ::
  "Env \<Rightarrow> DataHandleType \<Rightarrow> int \<Rightarrow> KVMeta \<Rightarrow> KVPairs \<Rightarrow> KVStoreDistServer \<Rightarrow> error + KVStoreDistServer" where
  "DefaultStorageResponse env ty key req_meta req_data s =
     (case map_of (store s) key of
        None \<Rightarrow> Inl NotInitialized
      | Some stored \<Rightarrow>
          (let len = prod_list (nd_shape stored) * mshadow_sizeof env (nd_dtype stored);
               response = \<lparr>keys = keys req_data, vals = take len (nd_data stored),
                           lens = [int32_of (int len)]\<rparr>
           in Inr (emit (ResponseKV req_meta response) s)))"

text \<open>\<^verbatim>\<open>DefaultAutoPull\<close>: the same reply, sent as an unsolicited pull with a version.\<close>

definition DefaultAutoPull ::
  "Env \<Rightarrow> DataHandleType \<Rightarrow> int \<Rightarrow> int \<Rightarrow> KVMeta \<Rightarrow> KVPairs \<Rightarrow> KVStoreDistServer \<Rightarrow> error + KVStoreDistServer" where
  "DefaultAutoPull env ty key version req_meta req_data s =
     (if requestType ty \<noteq> kDefaultPushPull then Inl CheckFailed
      else case map_of (store s) key of
        None \<Rightarrow> Inl NotInitialized
      | Some stored \<Rightarrow>
          (let len = prod_list (nd_shape stored) * mshadow_sizeof env (nd_dtype stored);
               response = \<lparr>keys = keys req_data, vals = take len (nd_data stored),
                           lens = [int32_of (int len)]\<rparr>
           in Inr (emit (AutoPullUpdate version req_meta response) s)))"

text \<open>
  The lines that \<^verbatim>\<open>ApplyUpdates\<close> and \<^verbatim>\<open>ApplyUpdatesDefault\<close> share: with an updater,
  \<^verbatim>\<open>exec_.Exec\<close> of the closure that calls \<^verbatim>\<open>updater_(key, update, &stored)\<close>, where
  \<^verbatim>\<open>update\<close> is \<^verbatim>\<open>merged\<close> in sync mode and \<^verbatim>\<open>temp_array\<close> otherwise; without one,
  \<^verbatim>\<open>CHECK(sync_mode_)\<close> and \<^verbatim>\<open>CopyFromTo(update_buf->merged, &stored)\<close>. A tensor
  operation on a handle that holds no array is rejected by the engine (\<open>CheckFailed\<close>).
\<close>

definition apply_updater :: "Env \<Rightarrow> DataHandleType \<Rightarrow> int \<Rightarrow> KVStoreDistServer \<Rightarrow> error + KVStoreDistServer" where
  "apply_updater env ty key s =
     (let ub = update_buf s key;
          stored = get_stored env s ty key;
          update = (if sync_mode s then merged ub else temp_array ub)
      in case updater s of
           Some upd \<Rightarrow>
             (if \<not> exec_in_Start s then Inl NeverReturns
              else case update of
                     None \<Rightarrow> Inl CheckFailed
                   | Some u \<Rightarrow>
                       (case stored of
                          None \<Rightarrow> Inl CheckFailed
                        | Some st \<Rightarrow> Inr (set_stored env ty key (upd key u st) (emit (UpdaterCall key u st) s))))
         | None \<Rightarrow>
             (if \<not> sync_mode s then Inl UnsupportedMode
              else case merged ub of
                     None \<Rightarrow> Inl CheckFailed
                   | Some mg \<Rightarrow>
                       (case stored of
                          None \<Rightarrow> Inl CheckFailed
                        | Some st \<Rightarrow> Inr (set_stored env ty key (CopyFromTo env mg st) s))))"

text \<open>\<^verbatim>\<open>if (has_multi_precision_copy(type)) CopyFromTo(stored, store_[key])\<close>\<close>

definition copy_to_store :: "Env \<Rightarrow> DataHandleType \<Rightarrow> int \<Rightarrow> KVStoreDistServer \<Rightarrow> error + KVStoreDistServer" where
  "copy_to_store env ty key s =
     (if has_multi_precision_copy env s ty then
        (case store_realt s key of
           None \<Rightarrow> Inl CheckFailed
         | Some st \<Rightarrow>
             (case map_of (store s) key of
                None \<Rightarrow> Inl CheckFailed
              | Some pr \<Rightarrow> Inr (s\<lparr>store := AList.update key (CopyFromTo env st pr) (store s)\<rparr>)))
      else Inr s)"

definition clear_request :: "int \<Rightarrow> KVStoreDistServer \<Rightarrow> KVStoreDistServer" where
  "clear_request key s = set_update_buf key ((update_buf s key)\<lparr>request := []\<rparr>) s"

text \<open>
  \<^verbatim>\<open>for (const auto& req : update_buf->request) if (req.pull) DefaultStorageResponse(...)\<close>
\<close>

fun respond_pulls ::
  "Env \<Rightarrow> DataHandleType \<Rightarrow> int \<Rightarrow> KVMeta list \<Rightarrow> KVPairs \<Rightarrow> KVStoreDistServer \<Rightarrow> error + KVStoreDistServer" where
  "respond_pulls env ty key [] req_data s = Inr s"
| "respond_pulls env ty key (req # reqs) req_data s =
     (if pull req then
        (case DefaultStorageResponse env ty key req req_data s of
           Inl e \<Rightarrow> Inl e
         | Inr s' \<Rightarrow> respond_pulls env ty key reqs req_data s')
      else respond_pulls env ty key reqs req_data s)"

text \<open>\<^verbatim>\<open>for (const auto& req : update_buf->request) server->Response(req)\<close>\<close>

fun respond_all :: "KVMeta list \<Rightarrow> KVStoreDistServer \<Rightarrow> KVStoreDistServer" where
  "respond_all [] s = s"
| "respond_all (req # reqs) s = respond_all reqs (emit (Response req) s)"

text \<open>
  \<^verbatim>\<open>ApplyUpdates\<close>. The branch is taken in async mode or when the pending list has
  exactly \<^verbatim>\<open>ps::NumWorkers()\<close> entries; otherwise only \<^verbatim>\<open>merged\<close> is fenced.
\<close>

definition ApplyUpdates ::
  "Env \<Rightarrow> DataHandleType \<Rightarrow> int \<Rightarrow> KVPairs \<Rightarrow> KVStoreDistServer \<Rightarrow> error + KVStoreDistServer" where
  "ApplyUpdates env ty key req_data s =
     (if \<not> sync_mode s \<or> length (request (update_buf s key)) = NumWorkers env then
        (case apply_updater env ty key s of
           Inl e \<Rightarrow> Inl e
         | Inr s1 \<Rightarrow>
             (let reqs = request (update_buf s1 key);
                  has_pull = list_ex pull reqs
              in if has_pull then
                   (case copy_to_store env ty key s1 of
                      Inl e \<Rightarrow> Inl e
                    | Inr s2 \<Rightarrow>
                        (case respond_pulls env ty key reqs req_data s2 of
                           Inl e \<Rightarrow> Inl e
                         | Inr s3 \<Rightarrow> Inr (clear_request key s3)))
                 else copy_to_store env ty key (clear_request key (respond_all reqs s1))))
      else Inr s)"

text \<open>
  \<^verbatim>\<open>ApplyUpdatesDefault\<close>, the dispatcher of dense pushes under \<^verbatim>\<open>ENABLE_TSENGINE\<close>;
  \<^verbatim>\<open>storev\<close> is a reference to \<^verbatim>\<open>store_v_[key]\<close>, an \<^verbatim>\<open>int\<close>.
\<close>

definition ApplyUpdatesDefault ::
  "Env \<Rightarrow> DataHandleType \<Rightarrow> int \<Rightarrow> KVMeta \<Rightarrow> KVPairs \<Rightarrow> KVStoreDistServer \<Rightarrow> error + KVStoreDistServer" where
  "ApplyUpdatesDefault env ty key req_meta req_data s =
     (if \<not> sync_mode s \<or> length (request (update_buf s key)) = NumWorkers env then
        (case apply_updater env ty key s of
           Inl e \<Rightarrow> Inl e
         | Inr s1 \<Rightarrow>
             (let s2 = clear_request key s1
              in if \<not> int_ok (store_v s2 key + 1) then Inl UndefinedBehaviour
                 else
                   (let s3 = s2\<lparr>store_v := (store_v s2)(key := store_v s2 key + 1)\<rparr>
                    in case copy_to_store env ty key s3 of
                         Inl e \<Rightarrow> Inl e
                       | Inr s4 \<Rightarrow> DefaultAutoPull env ty key (store_v s4 key) req_meta req_data s4)))
      else Inr s)"

section \<open>The parameter server: row-sparse requests\<close>

text \<open>
  The loop of \<^verbatim>\<open>RowSparsePullResponse\<close> over the requested row keys: the row id is
  \<^verbatim>\<open>DecodeKey(key) - master_key\<close> (on \<^verbatim>\<open>int\<close>), and \<^verbatim>\<open>unit_size\<close> bytes are copied from
  \<^verbatim>\<open>data + row_id * unit_size\<close> to the next segment of the reply. The source does not
  check that the row lies inside the stored blob; a read outside it is undefined.
\<close>

fun gather_rows :: "Env \<Rightarrow> int \<Rightarrow> nat \<Rightarrow> byte list \<Rightarrow> Key list \<Rightarrow> error + byte list" where
  "gather_rows env master_key unit_size dat [] = Inr []"
| "gather_rows env master_key unit_size dat (k # ks) =
     (let row_id = DecodeKey env k - master_key
      in if \<not> int_ok row_id then Inl UndefinedBehaviour
         else if row_id < 0 \<or> length dat < (nat row_id + 1) * unit_size then Inl UndefinedBehaviour
         else (case gather_rows env master_key unit_size dat ks of
                 Inl e \<Rightarrow> Inl e
               | Inr rest \<Rightarrow> Inr (take unit_size (drop (nat row_id * unit_size) dat) @ rest)))"

text \<open>
  \<^verbatim>\<open>RowSparsePullResponse\<close>. With no rows requested the reply has the request's keys
  and a zero length for each; otherwise \<^verbatim>\<open>CHECK(!stored.is_none())\<close>, the rows, and
  lengths \<^verbatim>\<open>unit_len\<close> with \<^verbatim>\<open>lens[0] = 0\<close>. The keys \<^verbatim>\<open>req_data.keys[1..num_rows]\<close>
  must exist. \<^verbatim>\<open>num_bytes\<close> and \<^verbatim>\<open>unit_size\<close> are \<^verbatim>\<open>const int\<close> and the lengths are a
  \<^verbatim>\<open>std::vector<int>\<close>: the values are narrowed to 32 bits. A negative \<^verbatim>\<open>unit_size\<close>
  is converted back to \<^verbatim>\<open>size_t\<close> for the length of the reply and of every copy, which
  then run outside the buffers.
\<close>

definition RowSparsePullResponse ::
  "Env \<Rightarrow> DataHandleType \<Rightarrow> int \<Rightarrow> nat \<Rightarrow> KVMeta \<Rightarrow> KVPairs \<Rightarrow> KVStoreDistServer \<Rightarrow> error + KVStoreDistServer" where
  "RowSparsePullResponse env ty master_key num_rows req_meta req_data s =
     (if num_rows = 0 then
        Inr (emit (ResponseKV req_meta
               \<lparr>keys = keys req_data, vals = [], lens = replicate (length (keys req_data)) 0\<rparr>) s)
      else case map_of (store s) master_key of
        None \<Rightarrow> Inl NotInitialized
      | Some stored \<Rightarrow>
          (let unit_len = prod_list (drop 1 (nd_shape stored));
               num_bytes = int32_of (int (mshadow_sizeof env (dtype ty)));
               unit_size = int32_of (int unit_len * num_bytes)
           in if length (keys req_data) < num_rows + 1 then Inl UndefinedBehaviour
              else if unit_size < 0 then Inl UndefinedBehaviour
              else case gather_rows env master_key (nat unit_size) (nd_data stored)
                          (take num_rows (drop 1 (keys req_data))) of
                     Inl e \<Rightarrow> Inl e
                   | Inr vs \<Rightarrow>
                       Inr (emit (ResponseKV req_meta
                              \<lparr>keys = keys req_data, vals = vs,
                               lens = (replicate (length (keys req_data)) (int32_of (int unit_len)))[0 := 0]\<rparr>) s)))"

text \<open>
  \<^verbatim>\<open>InitRowSparseStored\<close>: the first push of a master key. \<^verbatim>\<open>num_bytes\<close> is an
  \<^verbatim>\<open>int\<close>, \<^verbatim>\<open>unit_len\<close> the quotient of two \<^verbatim>\<open>int\<close>, and the size that
  \<^verbatim>\<open>CHECK_EQ\<close> compares with is computed on \<^verbatim>\<open>size_t\<close>. The engine operation
  pushed here fills the row indices with \<open>0 .. num_rows - 1\<close>
  (\<^verbatim>\<open>PopulateFullIdxRspKernel\<close>) and copies the received values.
\<close>

definition InitRowSparseStored ::
  "Env \<Rightarrow> DataHandleType \<Rightarrow> int \<Rightarrow> nat \<Rightarrow> KVMeta \<Rightarrow> KVPairs \<Rightarrow> KVStoreDistServer \<Rightarrow> error + KVStoreDistServer" where
  "InitRowSparseStored env ty master_key num_rows req_meta req_data s =
     (let mp = has_multi_precision_copy env s ty;
          num_bytes = int32_of (int (mshadow_sizeof env (dtype ty)))
      in if length (lens req_data) < 2 then Inl UndefinedBehaviour
         else if num_bytes = 0 then Inl UndefinedBehaviour
         else if \<not> int_ok ((lens req_data ! 1) sdiv num_bytes) then Inl UndefinedBehaviour
         else
           (let unit_len = (lens req_data ! 1) sdiv num_bytes
            in if \<not> 0 < unit_len then Inl MalformedRequest
               else if int (length (vals req_data)) \<noteq>
                         (int num_rows * unit_len * num_bytes) mod 18446744073709551616
               then Inl MalformedRequest
               else if \<not> MSHADOW_REAL_TYPE env (dtype ty) then Inl CheckFailed
               else
                 (let dshape = [num_rows, nat unit_len];
                      recved = NDArray_of_blob dshape (dtype ty) (vals req_data);
                      stored0 = NDArray_new kRowSparseStorage dshape (if mp then kFloat32 env else dtype ty);
                      stored = stored0\<lparr>nd_idx := map int [0..<num_rows],
                                        nd_data := ndarray_Copy env recved stored0\<rparr>;
                      s1 = set_stored env ty master_key stored s;
                      s2 = (if mp then
                              s1\<lparr>store := AList.update master_key
                                   (CopyFromTo env stored (NDArray_new kRowSparseStorage dshape (dtype ty)))
                                   (store s1)\<rparr>
                            else s1)
                  in Inr (emit (Response req_meta) s2))))"

text \<open>\<^verbatim>\<open>DecodeRowIds\<close>: the row ids of the keys after the master key.\<close>

definition DecodeRowIds :: "Env \<Rightarrow> Key list \<Rightarrow> int \<Rightarrow> nat \<Rightarrow> int list" where
  "DecodeRowIds env ks master_key num_rows =
     map (\<lambda>k. DecodeKey env k - master_key) (take num_rows (drop 1 ks))"

text \<open>
  \<^verbatim>\<open>AccumulateRowSparseGrads\<close>: \<^verbatim>\<open>merged\<close> becomes the row-sparse sum of the received
  tensor (cast into \<^verbatim>\<open>temp_array\<close> first under mixed precision) and \<^verbatim>\<open>merged\<close>.
\<close>

definition AccumulateRowSparseGrads ::
  "Env \<Rightarrow> KVStoreDistServer \<Rightarrow> DataHandleType \<Rightarrow> NDArray \<Rightarrow> UpdateBuf \<Rightarrow> error + UpdateBuf" where
  "AccumulateRowSparseGrads env s ty recved updateBuf =
     (let mp = has_multi_precision_copy env s ty
      in case merged updateBuf of
           None \<Rightarrow> Inl CheckFailed
         | Some mg \<Rightarrow>
             (let out = NDArray_new kRowSparseStorage (nd_shape mg) (if mp then kFloat32 env else dtype ty)
              in if mp then
                   (case temp_array updateBuf of
                      None \<Rightarrow> Inl CheckFailed
                    | Some tmp \<Rightarrow>
                        (let to_merge = CopyFromTo env recved tmp;
                             out' = elemwise_plus env to_merge mg out
                         in Inr (updateBuf\<lparr>merged := Some (CopyFromTo env out' mg),
                                           temp_array := Some to_merge\<rparr>)))
                 else
                   (let out' = elemwise_plus env recved mg out
                    in Inr (updateBuf\<lparr>merged := Some (CopyFromTo env out' mg)\<rparr>))))"

text \<open>
  \<^verbatim>\<open>DataHandleRowSparse\<close>. \<^verbatim>\<open>req_data.keys[0]\<close> is read first, so the key list must
  not be empty; \<^verbatim>\<open>num_rows = req_data.keys.size() - 1\<close>.
\<close>

definition DataHandleRowSparse ::
  "Env \<Rightarrow> DataHandleType \<Rightarrow> KVMeta \<Rightarrow> KVPairs \<Rightarrow> KVStoreDistServer \<Rightarrow> error + KVStoreDistServer" where
  "DataHandleRowSparse env ty req_meta req_data s =
     (if keys req_data = [] then Inl UndefinedBehaviour
      else
        (let master_key = DecodeKey env (keys req_data ! 0);
             num_rows = length (keys req_data) - 1;
             mp = has_multi_precision_copy env s ty
         in if push req_meta then
              (if \<not> 0 < length (lens req_data) then Inl MalformedRequest
               else if lens req_data ! 0 \<noteq> 0 then Inl MalformedRequest
               else case map_of (store s) master_key of
                 None \<Rightarrow>
                   (if \<not> 0 < num_rows then Inl MalformedRequest
                    else InitRowSparseStored env ty master_key num_rows req_meta req_data s)
               | Some stored \<Rightarrow>
                   (let updates0 = update_buf s master_key;
                        updates1 = (if sync_mode s \<and> merged updates0 = None
                                    then updates0\<lparr>merged := Some (NDArray_new kRowSparseStorage (nd_shape stored)
                                                      (if mp then kFloat32 env else dtype ty))\<rparr>
                                    else updates0);
                        updates = (if mp \<and> temp_array updates1 = None
                                   then updates1\<lparr>temp_array := Some (NDArray_new kRowSparseStorage (nd_shape stored)
                                                      (kFloat32 env))\<rparr>
                                   else updates1)
                    in if num_rows = 0 then
                         (if sync_mode s then
                            (let merged_dtype = (if mp then kFloat32 env else dtype ty);
                                 updates' = (if request updates = []
                                             then updates\<lparr>merged := Some (NDArray_new kRowSparseStorage
                                                               (nd_shape stored) merged_dtype)\<rparr>
                                             else updates);
                                 updates'' = updates'\<lparr>request := request updates' @ [req_meta]\<rparr>
                             in ApplyUpdates env ty master_key req_data (set_update_buf master_key updates'' s))
                          else Inr (emit (Response req_meta) (set_update_buf master_key updates s)))
                       else if length (lens req_data) < 2 then Inl UndefinedBehaviour
                       else if mshadow_sizeof env (dtype ty) = 0 then Inl UndefinedBehaviour
                       else
                         (let unit_len = size_t_of_int (lens req_data ! 1) div mshadow_sizeof env (dtype ty)
                          in if \<not> 0 < unit_len then Inl MalformedRequest
                             else if \<not> MSHADOW_REAL_TYPE env (dtype ty) then Inl CheckFailed
                             else
                               (let indices = DecodeRowIds env (keys req_data) master_key num_rows;
                                    dshape = [num_rows, unit_len];
                                    recved = \<lparr>nd_storage_type = kRowSparseStorage, nd_shape = nd_shape stored,
                                              nd_dtype = dtype ty, nd_data = vals req_data, nd_idx = indices\<rparr>
                                in case
                                     (if request updates = [] then
                                        (if sync_mode s
                                         then Inr (updates\<lparr>merged := map_option (CopyFromTo env recved) (merged updates)\<rparr>)
                                         else if mp
                                         then Inr (updates\<lparr>temp_array := map_option (CopyFromTo env recved) (temp_array updates)\<rparr>)
                                         else Inr (updates\<lparr>temp_array := Some recved\<rparr>))
                                      else if \<not> sync_mode s then Inl CheckFailed
                                      else AccumulateRowSparseGrads env s ty recved updates)
                                   of Inl e \<Rightarrow> Inl e
                                    | Inr updates' \<Rightarrow>
                                        ApplyUpdates env ty master_key req_data
                                          (set_update_buf master_key
                                             (updates'\<lparr>request := request updates' @ [req_meta]\<rparr>) s)))))
             else RowSparsePullResponse env ty master_key num_rows req_meta req_data s))"

section \<open>The parameter server: compressed and dense requests\<close>

text \<open>
  \<^verbatim>\<open>DataHandleCompressed\<close>. \<^verbatim>\<open>NDArray(dshape, Context())\<close> makes a dense float32 array.
  \<^verbatim>\<open>decomp_buf\<close> is a local copy of the handle \<^verbatim>\<open>decomp_buf_[key]\<close>; an array made for
  it is not stored back. In async mode the closure given to \<^verbatim>\<open>exec_.Exec\<close> starts with
  \<^verbatim>\<open>CHECK(updater_)\<close>, which runs on the thread inside \<^verbatim>\<open>Start\<close>: without an updater
  the exception leaves \<^verbatim>\<open>Start\<close> on that thread, the block is destroyed with its promise
  unfulfilled, and the handler, whose wait on the future ends with that, goes on to
  respond.
\<close>

definition DataHandleCompressed ::
  "Env \<Rightarrow> DataHandleType \<Rightarrow> KVMeta \<Rightarrow> KVPairs \<Rightarrow> KVStoreDistServer \<Rightarrow> error + KVStoreDistServer" where
  "DataHandleCompressed env ty req_meta req_data s =
     (if dtype ty \<noteq> kFloat32 env then Inl UnsupportedMode
      else if push req_meta then
        (if length (keys req_data) \<noteq> 2 then Inl MalformedRequest
         else if length (lens req_data) \<noteq> 2 then Inl MalformedRequest
         else if length (vals req_data) \<noteq> size_t_of_int (lens req_data ! 1) then Inl MalformedRequest
         else if mshadow_sizeof env (dtype ty) = 0 then Inl UndefinedBehaviour
         else
           (let original_size = DecodeKey env (keys req_data ! 0);
                key = DecodeKey env (keys req_data ! 1);
                recved = NDArray_of_blob [size_t_of_int (lens req_data ! 1) div mshadow_sizeof env (dtype ty)]
                           (dtype ty) (vals req_data);
                dshape = [nat original_size];
                decomp = (case decomp_buf s key of
                            None \<Rightarrow> NDArray_new kDefaultStorage dshape (kFloat32 env)
                          | Some b \<Rightarrow> b)
            in case map_of (store s) key of
                 None \<Rightarrow>
                   (let stored = Dequantize env (gradient_compression s) recved
                                   (NDArray_new kDefaultStorage dshape (kFloat32 env))
                    in Inr (emit (Response req_meta) (s\<lparr>store := AList.update key stored (store s)\<rparr>)))
               | Some stored \<Rightarrow>
                   (if sync_mode s then
                      (let updates0 = update_buf s key;
                           updates1 = (if merged updates0 = None
                                       then updates0\<lparr>merged := Some (NDArray_new kDefaultStorage dshape (kFloat32 env))\<rparr>
                                       else updates0);
                           updates2 =
                             (if length (request updates1) = 0
                              then updates1\<lparr>merged := map_option (Dequantize env (gradient_compression s) recved)
                                                        (merged updates1)\<rparr>
                              else updates1\<lparr>merged := map_option
                                     (\<lambda>mg. plus_assign env mg (Dequantize env (gradient_compression s) recved decomp))
                                     (merged updates1)\<rparr>);
                           updates3 = updates2\<lparr>request := request updates2 @ [req_meta]\<rparr>
                       in ApplyUpdates env ty key req_data (set_update_buf key updates3 s))
                    else
                      (let decomp' = Dequantize env (gradient_compression s) recved decomp
                       in if \<not> exec_in_Start s then Inl NeverReturns
                          else case updater s of
                                 None \<Rightarrow>
                                   Inr (emit (Response req_meta)
                                         ((emit (StartThrows CheckFailed) s)\<lparr>exec_in_Start := False\<rparr>))
                               | Some upd \<Rightarrow>
                                   Inr (emit (Response req_meta)
                                         ((emit (UpdaterCall key decomp' stored) s)
                                            \<lparr>store := AList.update key (upd key decomp' stored) (store s)\<rparr>))))))
      else
        (if length (keys req_data) \<noteq> 1 then Inl MalformedRequest
         else if length (lens req_data) \<noteq> 0 then Inl MalformedRequest
         else DefaultStorageResponse env ty (DecodeKey env (keys req_data ! 0)) req_meta req_data s))"

text \<open>
  The merge of a dense push into the update buffer of an initialised key
  (\<^verbatim>\<open>DataHandleDefault\<close>, the branch \<^verbatim>\<open>else\<close> of \<^verbatim>\<open>stored.is_none()\<close> up to the
  dispatch): allocate \<^verbatim>\<open>merged\<close> and \<^verbatim>\<open>temp_array\<close> if needed; on an empty pending
  list copy the received tensor into \<^verbatim>\<open>merged\<close> (sync) or \<^verbatim>\<open>temp_array\<close> (async),
  otherwise \<^verbatim>\<open>CHECK(sync_mode_)\<close> and add it to \<^verbatim>\<open>merged\<close>.
\<close>

definition merge_dense ::
  "Env \<Rightarrow> KVStoreDistServer \<Rightarrow> DataHandleType \<Rightarrow> nat list \<Rightarrow> NDArray \<Rightarrow> UpdateBuf \<Rightarrow> error + UpdateBuf" where
  "merge_dense env s ty dshape recved updates0 =
     (let mp = has_multi_precision_copy env s ty;
          updates1 = (if sync_mode s \<and> merged updates0 = None
                      then updates0\<lparr>merged := Some (NDArray_new kDefaultStorage dshape
                                        (if mp then kFloat32 env else dtype ty))\<rparr>
                      else updates0);
          updates = (if mp \<and> temp_array updates1 = None
                     then updates1\<lparr>temp_array := Some (NDArray_new kDefaultStorage dshape (kFloat32 env))\<rparr>
                     else updates1)
      in if request updates = [] then
           (if sync_mode s
            then Inr (updates\<lparr>merged := map_option (CopyFromTo env recved) (merged updates)\<rparr>)
            else if mp
            then Inr (updates\<lparr>temp_array := map_option (CopyFromTo env recved) (temp_array updates)\<rparr>)
            else Inr (updates\<lparr>temp_array := Some recved\<rparr>))
         else if \<not> sync_mode s then Inl CheckFailed
         else if mp then
           (let tmp = map_option (CopyFromTo env recved) (temp_array updates)
            in Inr (updates\<lparr>temp_array := tmp,
                             merged := (case tmp of
                                          None \<Rightarrow> merged updates
                                        | Some t \<Rightarrow> map_option (\<lambda>mg. plus_assign env mg t) (merged updates))\<rparr>))
         else Inr (updates\<lparr>merged := map_option (\<lambda>mg. plus_assign env mg recved) (merged updates)\<rparr>))"

text \<open>\<^verbatim>\<open>DataHandleDefault\<close>.\<close>

definition DataHandleDefault ::
  "Env \<Rightarrow> DataHandleType \<Rightarrow> KVMeta \<Rightarrow> KVPairs \<Rightarrow> KVStoreDistServer \<Rightarrow> error + KVStoreDistServer" where
  "DataHandleDefault env ty req_meta req_data s =
     (if length (keys req_data) \<noteq> 1 then Inl MalformedRequest
      else if push req_meta \<and> length (lens req_data) \<noteq> 1 then Inl MalformedRequest
      else if push req_meta \<and> length (vals req_data) \<noteq> size_t_of_int (lens req_data ! 0) then Inl MalformedRequest
      else
        (let key = DecodeKey env (keys req_data ! 0);
             mp = has_multi_precision_copy env s ty
         in if push req_meta then
              (let s0 = (if ENABLE_TSENGINE env then emit (Response req_meta) s else s)
               in if mshadow_sizeof env (dtype ty) = 0 then Inl UndefinedBehaviour
                  else if \<not> MSHADOW_REAL_TYPE env (dtype ty) then Inl CheckFailed
                  else
                    (let dshape = [size_t_of_int (lens req_data ! 0) div mshadow_sizeof env (dtype ty)];
                         recved = NDArray_of_blob dshape (dtype ty) (vals req_data)
                     in case get_stored env s0 ty key of
                          None \<Rightarrow>
                            (let stored = CopyFromTo env recved
                                            (NDArray_new kDefaultStorage dshape (if mp then kFloat32 env else dtype ty));
                                 s1 = set_stored env ty key stored s0;
                                 s2 = (if \<not> ENABLE_TSENGINE env then emit (Response req_meta) s1 else s1);
                                 s3 = (if mp then
                                         s2\<lparr>store := AList.update key
                                              (CopyFromTo env stored (NDArray_new kDefaultStorage dshape (dtype ty)))
                                              (store s2)\<rparr>
                                       else s2)
                             in if ENABLE_TSENGINE env then
                                  DefaultAutoPull env ty key 0 req_meta req_data
                                    (s3\<lparr>store_v := (store_v s3)(key := 0)\<rparr>)
                                else Inr s3)
                        | Some stored \<Rightarrow>
                            (case merge_dense env s0 ty dshape recved (update_buf s0 key) of
                               Inl e \<Rightarrow> Inl e
                             | Inr updates \<Rightarrow>
                                 (if ENABLE_TSENGINE env then
                                    ApplyUpdatesDefault env ty key req_meta req_data
                                      (set_update_buf key
                                         (updates\<lparr>request := request updates @
                                                     replicate (nat (num_merge req_meta)) req_meta\<rparr>) s0)
                                  else
                                    ApplyUpdates env ty key req_data
                                      (set_update_buf key
                                         (updates\<lparr>request := request updates @ [req_meta]\<rparr>) s0)))))
            else DefaultStorageResponse env ty key req_meta req_data s))"

section \<open>The parameter server: LeMethod and the dispatch of data requests\<close>

text \<open>
  The reply that carries the stored tensor to the peers:
  \<^verbatim>\<open>kvs->keys = keys; kvs->vals.CopyFrom(stored.data().dptr_, len); kvs->lens = {len}\<close>,
  where \<^verbatim>\<open>len\<close> is an \<^verbatim>\<open>int\<close>, the size in bytes narrowed to 32 bits; a negative
  \<^verbatim>\<open>len\<close> is converted back to \<^verbatim>\<open>size_t\<close> for the copy, which then runs outside the
  buffer.
\<close>

definition stored_kvs :: "Env \<Rightarrow> Key list \<Rightarrow> NDArray \<Rightarrow> error + KVPairs" where
  "stored_kvs env ks stored =
     (let len = int32_of (int (prod_list (nd_shape stored) * mshadow_sizeof env (nd_dtype stored)))
      in if len < 0 then Inl UndefinedBehaviour
         else Inr \<lparr>keys = ks, vals = take (nat len) (nd_data stored), lens = [len]\<rparr>)"

text \<open>
  \<^verbatim>\<open>LocalAggregation\<close>. \<^verbatim>\<open>reqData.lens[0]\<close> is read whether or not the request is a
  push, so the lengths must not be empty. \<^verbatim>\<open>num_aggregation_ += reqMeta.num_aggregation\<close>
  is an addition of two \<^verbatim>\<open>int\<close>.
\<close>

definition LocalAggregation ::
  "Env \<Rightarrow> KVMeta \<Rightarrow> KVPairs \<Rightarrow> KVStoreDistServer \<Rightarrow> error + KVStoreDistServer" where
  "LocalAggregation env reqMeta reqData s =
     (if length (keys reqData) \<noteq> 1 then Inl MalformedRequest
      else if push reqMeta \<and> length (lens reqData) \<noteq> 1 then Inl MalformedRequest
      else if push reqMeta \<and> length (vals reqData) \<noteq> size_t_of_int (lens reqData ! 0) then Inl MalformedRequest
      else
        (let key = DecodeKey env (keys reqData ! 0)
         in case DepairDataHandleType (cmd reqMeta) of
              Inl e \<Rightarrow> Inl e
            | Inr ty \<Rightarrow>
                (if lens reqData = [] then Inl UndefinedBehaviour
                 else if mshadow_sizeof env (dtype ty) = 0 then Inl UndefinedBehaviour
                 else if \<not> MSHADOW_REAL_TYPE env (dtype ty) then Inl CheckFailed
                 else if \<not> int_ok (num_aggregation_member s + num_aggregation reqMeta)
                 then Inl UndefinedBehaviour
                 else
                   (let dshape = [size_t_of_int (lens reqData ! 0) div mshadow_sizeof env (dtype ty)];
                        recved = NDArray_of_blob dshape (dtype ty) (vals reqData);
                        stored0 = (case map_of (store s) key of
                                     None \<Rightarrow> NDArray_new kDefaultStorage dshape (dtype ty)
                                   | Some st \<Rightarrow> st);
                        stored = (if num_aggregation_member s = 0 then CopyFromTo env recved stored0
                                  else plus_assign env stored0 recved);
                        s1 = s\<lparr>store := AList.update key stored (store s),
                               num_aggregation_member := num_aggregation_member s + num_aggregation reqMeta\<rparr>
                    in if num_aggregation_member s1 = int (NumWorkers env) then
                         (if \<not> sync_mode s1 then Inl UnsupportedMode
                          else
                            (let s2 = (emit NoticeWorkersOneIterationFinish s1)\<lparr>num_aggregation_member := 0\<rparr>
                             in case stored_kvs env (keys reqData) stored of
                                  Inl e \<Rightarrow> Inl e
                                | Inr kvs \<Rightarrow>
                                    (case enqueue (reqMeta, kvs) (threadPool s2) of
                                       Inl e \<Rightarrow> Inl e
                                     | Inr pool \<Rightarrow> Inr (s2\<lparr>threadPool := pool\<rparr>))))
                       else Inr s1))))"

text \<open>
  \<^verbatim>\<open>DataHandleEx\<close>, the handler of every data request. With \<^verbatim>\<open>ENABLE_LEMETHOD\<close> set
  the request type must be \<^verbatim>\<open>kDefaultPushPull\<close>; a request marked
  \<^verbatim>\<open>LOCAL_AGGREGATION\<close> or \<^verbatim>\<open>INIT\<close> is served and every other one is dropped. Without
  the flag the request goes to the handler of its type; a request type outside the
  three enumerators matches no case of the \<^verbatim>\<open>switch\<close>.
\<close>

definition DataHandleEx ::
  "Env \<Rightarrow> KVMeta \<Rightarrow> KVPairs \<Rightarrow> KVStoreDistServer \<Rightarrow> error + KVStoreDistServer" where
  "DataHandleEx env req_meta req_data s =
     (case DepairDataHandleType (cmd req_meta) of
        Inl e \<Rightarrow> Inl e
      | Inr ty \<Rightarrow>
          (if ENABLE_LEMETHOD env then
             (if requestType ty \<noteq> kDefaultPushPull then Inl UnsupportedMode
              else if control_cmd req_meta = LOCAL_AGGREGATION then LocalAggregation env req_meta req_data s
              else if control_cmd req_meta = INIT then
                (case DataHandleDefault env ty req_meta req_data s of
                   Inl e \<Rightarrow> Inl e
                 | Inr s1 \<Rightarrow>
                     (case map_of (store s1) (DecodeKey env (keys req_data ! 0)) of
                        None \<Rightarrow> Inl CheckFailed
                      | Some stored \<Rightarrow>
                          (case stored_kvs env (keys req_data) stored of
                             Inl e \<Rightarrow> Inl e
                           | Inr kvs \<Rightarrow>
                               (case enqueue (req_meta, kvs) (threadPool s1) of
                                  Inl e \<Rightarrow> Inl e
                                | Inr pool \<Rightarrow> Inr (s1\<lparr>threadPool := pool\<rparr>)))))
              else Inr s)
           else
             (case requestType ty of
                kRowSparsePushPull \<Rightarrow> DataHandleRowSparse env ty req_meta req_data s
              | kCompressedPushPull \<Rightarrow> DataHandleCompressed env ty req_meta req_data s
              | kDefaultPushPull \<Rightarrow> DataHandleDefault env ty req_meta req_data s
              | kRequestTypeOther x \<Rightarrow> Inr s)))"

section \<open>The parameter server: commands\<close>

text \<open>\<^verbatim>\<open>enum class CommandType\<close>; a head that names no enumerator is \<open>None\<close>.\<close>

datatype CommandType =
    kController
  | kSetMultiPrecision
  | kStopServer
  | kSyncMode
  | kSetGradientCompression
  | kSetProfilerParams

definition CommandType_of_int :: "int \<Rightarrow> CommandType option" where
  "CommandType_of_int h =
     (if h = 0 then Some kController
      else if h = 1 then Some kSetMultiPrecision
      else if h = 2 then Some kStopServer
      else if h = 3 then Some kSyncMode
      else if h = 4 then Some kSetGradientCompression
      else if h = 5 then Some kSetProfilerParams
      else None)"

text \<open>
  The body of the first loop of \<^verbatim>\<open>CreateMultiPrecisionCopies\<close> for one entry of
  \<^verbatim>\<open>store_\<close>: for a tensor that is not float32, make the float32 copy
  \<^verbatim>\<open>store_realt_[key]\<close>, replace an existing \<^verbatim>\<open>merged\<close> by a fresh float32 array of its
  shape and storage type, \<^verbatim>\<open>CHECK(update.request.size() == 0)\<close>, and copy the stored
  tensor into the float32 copy.
\<close>

definition CreateMultiPrecisionCopy ::
  "Env \<Rightarrow> int \<times> NDArray \<Rightarrow> KVStoreDistServer \<Rightarrow> error + KVStoreDistServer" where
  "CreateMultiPrecisionCopy env stored_entry s =
     (let key = fst stored_entry;
          stored = snd stored_entry
      in if nd_dtype stored \<noteq> kFloat32 env then
           (let stored_realt = NDArray_new (nd_storage_type stored) (nd_shape stored) (kFloat32 env);
                update0 = update_buf s key;
                update = (case merged update0 of
                            None \<Rightarrow> update0
                          | Some mg \<Rightarrow>
                              update0\<lparr>merged := Some (NDArray_new (nd_storage_type mg) (nd_shape mg) (kFloat32 env))\<rparr>)
            in if length (request update) \<noteq> 0 then Inl ConfigurationRace
               else Inr (s\<lparr>store_realt := (store_realt s)(key \<mapsto> CopyFromTo env stored stored_realt),
                           update_buf := (update_buf s)(key := update)\<rparr>))
         else Inr s)"

text \<open>
  \<^verbatim>\<open>CreateMultiPrecisionCopies\<close>: the loop over the entries of \<^verbatim>\<open>store_\<close>. The second
  loop only waits for the copies.
\<close>

fun CreateMultiPrecisionCopies_loop ::
  "Env \<Rightarrow> (int \<times> NDArray) list \<Rightarrow> KVStoreDistServer \<Rightarrow> error + KVStoreDistServer" where
  "CreateMultiPrecisionCopies_loop env [] s = Inr s"
| "CreateMultiPrecisionCopies_loop env (stored_entry # entries) s =
     (case CreateMultiPrecisionCopy env stored_entry s of
        Inl e \<Rightarrow> Inl e
      | Inr s' \<Rightarrow> CreateMultiPrecisionCopies_loop env entries s')"

definition CreateMultiPrecisionCopies :: "Env \<Rightarrow> KVStoreDistServer \<Rightarrow> error + KVStoreDistServer" where
  "CreateMultiPrecisionCopies env s = CreateMultiPrecisionCopies_loop env (store s) s"

text \<open>
  \<^verbatim>\<open>CommandHandle\<close>. \<^verbatim>\<open>kStopServer\<close> calls \<^verbatim>\<open>exec_.Stop()\<close>, which returns only if a
  thread is inside \<^verbatim>\<open>Start\<close> and makes that thread leave. \<^verbatim>\<open>kSetMultiPrecision\<close>
  sets the flag and creates the copies only if the flag is not set yet. \<^verbatim>\<open>kController\<close>
  runs \<^verbatim>\<open>CHECK(controller_)\<close> and the controller on the executor; a failure of the
  check leaves \<^verbatim>\<open>Start\<close> on the executor's thread and releases the handler, as in
  \<^verbatim>\<open>DataHandleCompressed\<close>.
  \<^verbatim>\<open>kSetProfilerParams\<close> reads \<^verbatim>\<open>recved.body.back()\<close>, so the body must not be empty.
  Every command that completes is answered with \<^verbatim>\<open>app->Response(recved)\<close>.
\<close>

definition CommandHandle :: "Env \<Rightarrow> SimpleData \<Rightarrow> KVStoreDistServer \<Rightarrow> error + KVStoreDistServer" where
  "CommandHandle env recved s =
     (case
        (case CommandType_of_int (head recved) of
           Some kStopServer \<Rightarrow>
             (if exec_in_Start s then Inr (s\<lparr>exec_in_Start := False\<rparr>) else Inl NeverReturns)
         | Some kSyncMode \<Rightarrow> Inr (s\<lparr>sync_mode := True\<rparr>)
         | Some kSetGradientCompression \<Rightarrow> Inr (s\<lparr>gradient_compression := body recved\<rparr>)
         | Some kSetProfilerParams \<Rightarrow>
             (if body recved = [] then Inl UndefinedBehaviour
              else case ProcessServerProfilerCommands env (body recved) of
                     Some e \<Rightarrow> Inl e
                   | None \<Rightarrow> Inr (emit (ProfilerCommand (body recved)) s))
         | Some kSetMultiPrecision \<Rightarrow>
             (if \<not> multi_precision s
              then CreateMultiPrecisionCopies env (s\<lparr>multi_precision := True\<rparr>)
              else Inr s)
         | Some kController \<Rightarrow>
             (if \<not> exec_in_Start s then Inl NeverReturns
              else if \<not> controller_set s
              then Inr ((emit (StartThrows CheckFailed) s)\<lparr>exec_in_Start := False\<rparr>)
              else Inr (emit (ControllerCall (head recved) (body recved)) s))
         | None \<Rightarrow> Inr s)
      of Inl e \<Rightarrow> Inl e
       | Inr s' \<Rightarrow> Inr (emit (AppResponse recved) s'))"

section \<open>The parameter server: construction and the arrival of messages\<close>

text \<open>
  The constructor sets \<^verbatim>\<open>sync_mode_ = false\<close>, an empty codec and the handlers; the
  maps are empty, the counters are 0 and the pool is running. It does not initialise
  \<^verbatim>\<open>multi_precision_\<close>, whose first value is the argument here. No updater and no
  controller are set, and no thread is inside \<^verbatim>\<open>exec_.Start()\<close> yet.
\<close>

definition KVStoreDistServer_new :: "bool \<Rightarrow> KVStoreDistServer" where
  "KVStoreDistServer_new mp =
     \<lparr>sync_mode = False, controller_set = False, updater = None, store = [],
      store_realt = Map.empty, update_buf = (\<lambda>key. UpdateBuf_empty), decomp_buf = Map.empty,
      exec_in_Start = False, multi_precision = mp, gradient_compression = [],
      threadPool = \<lparr>stop = False, tasks = []\<rparr>, num_aggregation_member = 0, iteration = 0,
      store_v = (\<lambda>key. 0), outbox = []\<rparr>"

text \<open>\<^verbatim>\<open>set_updater\<close> (the \<^verbatim>\<open>CHECK(updater)\<close> holds for a function that is given).\<close>

definition set_updater ::
  "(int \<Rightarrow> NDArray \<Rightarrow> NDArray \<Rightarrow> NDArray) \<Rightarrow> KVStoreDistServer \<Rightarrow> KVStoreDistServer" where
  "set_updater upd s = s\<lparr>updater := Some upd\<rparr>"

text \<open>\<^verbatim>\<open>Run() { exec_.Start(); }\<close>: the calling thread enters the executor's loop.\<close>

definition Run :: "KVStoreDistServer \<Rightarrow> KVStoreDistServer" where
  "Run s = s\<lparr>exec_in_Start := True\<rparr>"

text \<open>
  The constructor registers \<^verbatim>\<open>CommandHandle\<close> for commands and \<^verbatim>\<open>DataHandleEx\<close> for
  data requests. \<open>serve\<close> hands the messages of a list to their handlers, one after the
  other, and stops at the first failure.
\<close>

datatype message = Command SimpleData | Data KVMeta KVPairs

fun serve :: "Env \<Rightarrow> message list \<Rightarrow> KVStoreDistServer \<Rightarrow> error + KVStoreDistServer" where
  "serve env [] s = Inr s"
| "serve env (Command recved # msgs) s =
     (case CommandHandle env recved s of Inl e \<Rightarrow> Inl e | Inr s' \<Rightarrow> serve env msgs s')"
| "serve env (Data req_meta req_data # msgs) s =
     (case DataHandleEx env req_meta req_data s of Inl e \<Rightarrow> Inl e | Inr s' \<Rightarrow> serve env msgs s')"

section \<open>An example environment\<close>

text \<open>
  Concrete values for the parameters, used to run the model on examples: float32 has
  type flag 0 and four bytes, float64 flag 1 and eight bytes, float16 flag 2 and two
  bytes, and these three are the floating-point types; two workers, a key range that
  starts at 0, and an engine whose copies move the bytes and whose additions add them
  bytewise.
\<close>

definition sizeof_example :: "int \<Rightarrow> nat" where
  "sizeof_example dt = (if dt = 0 then 4 else if dt = 1 then 8 else if dt = 2 then 2 else 1)"

definition real_type_example :: "int \<Rightarrow> bool" where
  "real_type_example dt \<longleftrightarrow> dt = 0 \<or> dt = 1 \<or> dt = 2"

definition copy_example :: "NDArray \<Rightarrow> NDArray \<Rightarrow> NDArray" where
  "copy_example src dst = dst\<lparr>nd_data := nd_data src, nd_idx := nd_idx src\<rparr>"

definition plus_example :: "NDArray \<Rightarrow> NDArray \<Rightarrow> NDArray" where
  "plus_example a b = a\<lparr>nd_data := map2 (+) (nd_data a) (nd_data b)\<rparr>"

definition elemwise_plus_example :: "NDArray \<Rightarrow> NDArray \<Rightarrow> NDArray \<Rightarrow> NDArray" where
  "elemwise_plus_example a b out = out\<lparr>nd_data := map2 (+) (nd_data a) (nd_data b), nd_idx := nd_idx a\<rparr>"

definition dequantize_example :: "string \<Rightarrow> NDArray \<Rightarrow> NDArray \<Rightarrow> NDArray" where
  "dequantize_example params src dst = dst\<lparr>nd_data := nd_data src\<rparr>"

definition copy_data_example :: "NDArray \<Rightarrow> NDArray \<Rightarrow> byte list" where
  "copy_data_example src dst = nd_data src"

definition profiler_example :: "string \<Rightarrow> error option" where
  "profiler_example b = None"

definition env_example :: Env where
  "env_example =
     \<lparr>ENABLE_LEMETHOD = False, ENABLE_TSENGINE = False, NumWorkers = 2, key_range_begin = 0,
      kFloat32 = 0, mshadow_sizeof = sizeof_example, MSHADOW_REAL_TYPE = real_type_example,
      CopyFromTo = copy_example,
      ndarray_Copy = copy_data_example, plus_assign = plus_example,
      elemwise_plus = elemwise_plus_example, Dequantize = dequantize_example,
      ProcessServerProfilerCommands = profiler_example\<rparr>"

text \<open>A request header: command value, push flag, pull flag and sender.\<close>

definition meta_example :: "int \<Rightarrow> bool \<Rightarrow> bool \<Rightarrow> int \<Rightarrow> KVMeta" where
  "meta_example c psh pll sndr =
     \<lparr>cmd = c, push = psh, pull = pll, sender = sndr, timestamp = 0, num_merge = 1,
      control_cmd = EMPTY, num_aggregation = 1, meta_key = 0\<rparr>"

text \<open>
  A server in sync mode with a running executor, no updater and nothing stored; and the
  same server as the dispatcher finds it when the second of two pushes for key 5 has been
  merged: key 5 holds a float32 tensor of one element (bytes 1 2 3 4), the pushes of
  workers 9 and 10 are pending and \<^verbatim>\<open>merged\<close> holds their sum.
\<close>

definition server_empty :: KVStoreDistServer where
  "server_empty =
     \<lparr>sync_mode = True, controller_set = False, updater = None, store = [],
      store_realt = Map.empty, update_buf = (\<lambda>key. UpdateBuf_empty), decomp_buf = Map.empty,
      exec_in_Start = True, multi_precision = False, gradient_compression = [],
      threadPool = \<lparr>stop = False, tasks = []\<rparr>, num_aggregation_member = 0, iteration = 0,
      store_v = (\<lambda>key. 0), outbox = []\<rparr>"

definition server_pending :: KVStoreDistServer where
  "server_pending =
     server_empty
       \<lparr>store := [(5, NDArray_of_blob [1] 0 [1, 2, 3, 4])],
        update_buf := (update_buf server_empty)
          (5 := \<lparr>request = [meta_example 0 True True 9, meta_example 0 True False 10],
                merged = Some (NDArray_of_blob [1] 0 [8, 8, 8, 8]), temp_array = None\<rparr>)\<rparr>"

text \<open>
  Messages for the examples. Command value 0 is a dense request of float32, 5 a dense
  request of float16 (type flag 2), 8 a row-sparse request of float16.
  \<open>msgs_one_pending c\<close>: the server is switched to sync mode, key 5 is initialised by a
  first push and worker 9 pushes and pulls; with two workers that push stays pending.
  \<open>msgs_row_sparse\<close>: multi-precision is switched on (the server stays in async mode)
  and master key 100 is initialised with three rows of one float16 element (two bytes).
\<close>

definition msgs_one_pending :: "int \<Rightarrow> message list" where
  "msgs_one_pending c =
     [Command \<lparr>head = 3, body = []\<rparr>,
      Data (meta_example c True False 9) \<lparr>keys = [5], vals = [1, 2, 3, 4], lens = [4]\<rparr>,
      Data (meta_example c True True 9) \<lparr>keys = [5], vals = [8, 8, 8, 8], lens = [4]\<rparr>]"

definition msgs_row_sparse :: "message list" where
  "msgs_row_sparse =
     [Command \<lparr>head = 1, body = []\<rparr>,
      Data (meta_example 8 True False 9)
        \<lparr>keys = [100, 100, 101, 102], vals = [1, 1, 2, 2, 3, 3], lens = [0, 2, 2, 2]\<rparr>]"

text \<open>An updater for the examples: the stored bytes minus the update, bytewise.\<close>

definition updater_example :: "int \<Rightarrow> NDArray \<Rightarrow> NDArray \<Rightarrow> NDArray" where
  "updater_example key update stored = stored\<lparr>nd_data := map2 (-) (nd_data stored) (nd_data update)\<rparr>"

section \<open>An invariant of the update buffers\<close>

text \<open>
  A key with pending pushes has a \<^verbatim>\<open>merged\<close> tensor: every handler that appends to
  \<^verbatim>\<open>request\<close> in sync mode has allocated \<^verbatim>\<open>merged\<close> before, and in async mode the
  dispatcher empties the list at once.
\<close>

definition pending_has_merged :: "KVStoreDistServer \<Rightarrow> bool" where
  "pending_has_merged s \<longleftrightarrow>
     (\<forall>key. request (update_buf s key) \<noteq> [] \<longrightarrow> merged (update_buf s key) \<noteq> None)"

section \<open>Properties of the pairing\<close>

lemma floor_sqrt_small: "n < 2 \<Longrightarrow> floor_sqrt n = n"
  by (subst floor_sqrt.simps) simp

lemma floor_sqrt_step:
  "\<not> n < 2 \<Longrightarrow> floor_sqrt n =
     (if (2 * floor_sqrt (n div 4) + 1) * (2 * floor_sqrt (n div 4) + 1) \<le> n
      then 2 * floor_sqrt (n div 4) + 1 else 2 * floor_sqrt (n div 4))"
  by (subst floor_sqrt.simps) (simp only: if_False Let_def)

lemma floor_sqrt_bounds:
  "floor_sqrt n * floor_sqrt n \<le> n \<and> n < (floor_sqrt n + 1) * (floor_sqrt n + 1)"
proof (induction n rule: floor_sqrt.induct)
  case (1 n)
  show ?case
  proof (cases "n < 2")
    case True
    then have "n = 0 \<or> n = 1" by arith
    then show ?thesis using True by (auto simp: floor_sqrt_small)
  next
    case False
    define s where "s = floor_sqrt (n div 4)"
    from 1 False have IH: "s * s \<le> n div 4 \<and> n div 4 < (s + 1) * (s + 1)"
      unfolding s_def by blast
    have a: "4 * (s * s) \<le> n" using IH by linarith
    have b: "n < 4 * ((s + 1) * (s + 1))" using IH by linarith
    have eq: "floor_sqrt n = (if (2 * s + 1) * (2 * s + 1) \<le> n then 2 * s + 1 else 2 * s)"
      unfolding s_def by (rule floor_sqrt_step [OF False])
    show ?thesis
    proof (cases "(2 * s + 1) * (2 * s + 1) \<le> n")
      case True
      have "(2 * s + 1 + 1) * (2 * s + 1 + 1) = 4 * ((s + 1) * (s + 1))"
        by (simp add: algebra_simps)
      with True b show ?thesis by (simp only: eq if_True)
    next
      case False
      have "2 * s * (2 * s) = 4 * (s * s)" by simp
      with False a show ?thesis by (simp only: eq if_False) simp
    qed
  qed
qed

lemma floor_sqrt_real: "int (floor_sqrt n) = \<lfloor>sqrt (real n)\<rfloor>"
proof -
  let ?s = "floor_sqrt n"
  have lo: "real ?s \<le> sqrt (real n)"
  proof (rule real_le_rsqrt)
    have "?s * ?s \<le> n" using floor_sqrt_bounds by blast
    then have "real (?s * ?s) \<le> real n" by (rule iffD2 [OF of_nat_le_iff])
    then show "(real ?s)\<^sup>2 \<le> real n" by (simp only: power2_eq_square of_nat_mult)
  qed
  have hi: "sqrt (real n) < real ?s + 1"
  proof (rule real_less_lsqrt)
    have "n < (?s + 1) * (?s + 1)" using floor_sqrt_bounds by blast
    then have "real n < real ((?s + 1) * (?s + 1))" by (rule iffD2 [OF of_nat_less_iff])
    then show "real n < (real ?s + 1)\<^sup>2"
      by (simp only: power2_eq_square of_nat_mult of_nat_add of_nat_1)
  qed simp
  have "\<lfloor>sqrt (real n)\<rfloor> = int ?s"
  proof (rule floor_unique)
    show "real_of_int (int ?s) \<le> sqrt (real n)" using lo by simp
    show "sqrt (real n) < real_of_int (int ?s) + 1" using hi by simp
  qed
  then show ?thesis by simp
qed

text \<open>The integer expression of \<open>DepairDataHandleType\<close> is the floor of the real one.\<close>

lemma floor_half_sqrt:
  "\<lfloor>(sqrt (real n) - 1) / 2\<rfloor> = (int (floor_sqrt n) - 1) div 2"
proof -
  have "\<lfloor>(sqrt (real n) - 1) / real_of_int 2\<rfloor> = \<lfloor>sqrt (real n) - 1\<rfloor> div 2"
    by (rule floor_divide_real_eq_div) simp
  then show ?thesis by (simp add: floor_sqrt_real)
qed

lemma sdiv_two_nonneg: "0 \<le> a \<Longrightarrow> a sdiv 2 = a div (2::int)"
  by (simp add: signed_divide_int_def sgn_if)

lemma consecutive_even: "even ((s::int) * (s + 1))"
  by simp

lemma sq_le_imp_le:
  fixes a b :: nat
  assumes "a * a \<le> n" "n < (b + 1) * (b + 1)"
  shows "a \<le> b"
proof (rule ccontr)
  assume "\<not> a \<le> b"
  then have h: "b + 1 \<le> a" by simp
  have "(b + 1) * (b + 1) \<le> a * a" by (rule mult_le_mono [OF h h])
  with assms show False by simp
qed

lemma floor_sqrt_between:
  fixes k :: nat
  assumes "k * k \<le> n" "n < (k + 2) * (k + 2)"
  shows "floor_sqrt n = k \<or> floor_sqrt n = k + 1"
proof -
  have a: "k \<le> floor_sqrt n"
    using sq_le_imp_le [OF assms(1)] floor_sqrt_bounds by blast
  have "floor_sqrt n * floor_sqrt n \<le> n" using floor_sqrt_bounds by blast
  moreover have "n < (k + 1 + 1) * (k + 1 + 1)" using assms(2) by simp
  ultimately have b: "floor_sqrt n \<le> k + 1" by (rule sq_le_imp_le)
  from a b show ?thesis by linarith
qed

lemma cantor_w:
  fixes s d :: int
  assumes "0 \<le> d" "d \<le> s" "2 * c = s * (s + 1) + 2 * d"
  shows "(int (floor_sqrt (nat (8 * c + 1))) - 1) div 2 = s"
proof -
  define k where "k = nat (2 * s + 1)"
  define n where "n = nat (8 * c + 1)"
  have s0: "0 \<le> s" using assms by simp
  have c8: "8 * c + 1 = (2 * s + 1) * (2 * s + 1) + 8 * d"
    using assms(3) by (simp add: algebra_simps)
  have pos: "0 \<le> (2 * s + 1) * (2 * s + 1)" by simp
  have "int k = 2 * s + 1" using s0 by (simp add: k_def)
  then have kk: "int (k * k) = (2 * s + 1) * (2 * s + 1)" by (simp only: of_nat_mult)
  have nn: "int n = 8 * c + 1" using c8 pos assms(1) by (simp add: n_def)
  have lo: "k * k \<le> n"
  proof -
    have "int (k * k) \<le> int n" unfolding kk nn c8 using assms(1) by simp
    then show ?thesis by (simp only: of_nat_le_iff)
  qed
  have hi: "n < (k + 2) * (k + 2)"
  proof -
    have "int (k + 2) = 2 * s + 3" using s0 by (simp add: k_def)
    then have "int ((k + 2) * (k + 2)) = (2 * s + 3) * (2 * s + 3)"
      by (simp only: of_nat_mult)
    moreover have "(2 * s + 3) * (2 * s + 3) = (2 * s + 1) * (2 * s + 1) + 8 * s + 8"
      by (simp add: algebra_simps)
    ultimately have "int n < int ((k + 2) * (k + 2))" unfolding nn c8 using assms(2) by simp
    then show ?thesis by (simp only: of_nat_less_iff)
  qed
  from floor_sqrt_between [OF lo hi]
  have "int (floor_sqrt n) = 2 * s + 1 \<or> int (floor_sqrt n) = 2 * s + 2"
    using s0 by (auto simp: k_def)
  then show ?thesis unfolding n_def by auto
qed

lemma GetCommandType_value:
  assumes "GetCommandType r d = Inr c" "0 \<le> int_of_RequestType r + d"
  shows "2 * c = (int_of_RequestType r + d) * (int_of_RequestType r + d + 1) + 2 * d"
proof -
  let ?s = "int_of_RequestType r + d"
  have nn: "0 \<le> ?s * (?s + 1)" using assms(2) by simp
  have "c = (?s * (?s + 1)) sdiv 2 + d"
    using assms(1) by (simp add: GetCommandType_def Let_def split: if_splits)
  then have "c = (?s * (?s + 1)) div 2 + d" by (simp only: sdiv_two_nonneg [OF nn])
  moreover have "even (?s * (?s + 1))" by (rule consecutive_even)
  ultimately show ?thesis by (simp add: algebra_simps)
qed

text \<open>
  Claim C10, as amended. Depairing is a left inverse of pairing: for each of the three
  request types \<open>r\<close> and every non-negative dtype \<open>d\<close> whose command value \<open>c\<close>
  is small enough that \<open>8 * c + 1\<close> is still an \<^verbatim>\<open>int\<close> (that is, \<open>c \<le> 268435455\<close>),
  \<open>DepairDataHandleType (GetCommandType r d)\<close> returns exactly request type \<open>r\<close> and
  dtype \<open>d\<close>.
\<close>

theorem Depair_GetCommandType:
  assumes r: "r \<in> {kDefaultPushPull, kRowSparsePushPull, kCompressedPushPull}"
    and d: "0 \<le> d"
    and c: "GetCommandType r d = Inr c"
    and small: "8 * c + 1 \<le> 2147483647"
  shows "DepairDataHandleType c = Inr \<lparr>requestType = r, dtype = d\<rparr>"
proof -
  define m where "m = int_of_RequestType r"
  define s where "s = m + d"
  have m0: "0 \<le> m" using r by (auto simp: m_def)
  have rm: "RequestType_of_int m = r" using r by (auto simp: m_def RequestType_of_int_def)
  have s0: "0 \<le> s" and ds: "d \<le> s" using m0 d by (simp_all add: s_def)
  have c2: "2 * c = s * (s + 1) + 2 * d"
    using GetCommandType_value [OF c] s0 by (simp add: s_def m_def)
  have ss: "0 \<le> s * (s + 1)" using s0 by simp
  have c0: "0 \<le> c" using c2 ss d by linarith
  have w: "(int (floor_sqrt (nat (8 * c + 1))) - 1) div 2 = s"
    by (rule cantor_w [OF d ds c2])
  have ev: "even (s * (s + 1))" by (rule consecutive_even)
  have t: "(s * s + s) sdiv 2 = (s * (s + 1)) div 2"
  proof -
    have "s * s + s = s * (s + 1)" by (simp add: algebra_simps)
    then show ?thesis using sdiv_two_nonneg [OF ss] by simp
  qed
  have y: "c - (s * s + s) sdiv 2 = d" unfolding t using c2 ev by auto
  have ok: "int_ok (8 * c) \<and> int_ok (8 * c + 1) \<and> \<not> 8 * c + 1 < 0"
    using c0 small by (simp add: int_ok_def)
  have x: "s - d = m" by (simp add: s_def)
  show ?thesis
    unfolding DepairDataHandleType_def using ok by (simp add: Let_def w y x d ds m0 rm)
qed

text \<open>The theorem at request type row-sparse and dtype 2, whose command value is 8.\<close>

theorem Depair_GetCommandType_witness:
  "kRowSparsePushPull \<in> {kDefaultPushPull, kRowSparsePushPull, kCompressedPushPull}
   \<and> (0::int) \<le> 2
   \<and> GetCommandType kRowSparsePushPull 2 = Inr 8
   \<and> 8 * (8::int) + 1 \<le> 2147483647
   \<and> DepairDataHandleType 8 = Inr \<lparr>requestType = kRowSparsePushPull, dtype = 2\<rparr>"
proof -
  have g: "GetCommandType kRowSparsePushPull 2 = Inr 8"
    by (simp add: GetCommandType_def int_ok_def signed_divide_int_def)
  show ?thesis
    using Depair_GetCommandType [of kRowSparsePushPull 2 8] g by simp
qed

text \<open>
  The bound of the claim as it was stated is not enough: for dtype 23169 the command value
  268436034 is an \<^verbatim>\<open>int\<close>, and so are all intermediate values of \<open>GetCommandType\<close>, but
  \<open>8 * 268436034 + 1\<close> is not, and depairing overflows.
\<close>

theorem Depair_GetCommandType_overflow:
  "GetCommandType kDefaultPushPull 23169 = Inr 268436034
   \<and> DepairDataHandleType 268436034 = Inl UndefinedBehaviour"
  by (simp add: GetCommandType_def DepairDataHandleType_def int_ok_def signed_divide_int_def)

section \<open>Properties of the serial executor\<close>

text \<open>On an empty queue, \<^verbatim>\<open>Exec\<close> of a closure returns exactly if a thread is inside \<^verbatim>\<open>Start\<close>
  (the promise being new), and then the closure has run.\<close>

lemma Exec_empty_queue:
  "queue e = [] \<Longrightarrow>
   Exec (Some g) (e, u) =
     (if in_Start e
      then Some (e\<lparr>promises_set := insert (next_promise e) (promises_set e),
                   next_promise := next_promise e + 1\<rparr>, g u)
      else if next_promise e \<in> promises_set e
      then Some (e\<lparr>queue := [\<lparr>blk_f = Some g, blk_p = next_promise e\<rparr>],
                   next_promise := next_promise e + 1\<rparr>, u)
      else None)"
  by (simp add: Exec_def Start_def)

lemma Start_loop_closures:
  assumes "\<forall>b \<in> set q. blk_f b \<noteq> None"
  shows "Start_loop (q @ [\<lparr>blk_f = None, blk_p = n\<rparr>]) ps u =
           ([], ps \<union> blk_p ` set q \<union> {n}, fold (\<lambda>b. the (blk_f b)) q u, False)"
  using assms
proof (induction q arbitrary: ps u)
  case Nil
  then show ?case by simp
next
  case (Cons b q)
  then obtain g where g: "blk_f b = Some g" by auto
  from Cons.prems have "\<forall>b \<in> set q. blk_f b \<noteq> None" by simp
  from Cons.IH [OF this] show ?case by (simp add: g insert_commute)
qed

lemma Stop_running:
  assumes "in_Start e" "\<forall>b \<in> set (queue e). blk_f b \<noteq> None"
  shows "Stop (e, u) =
           Some (e\<lparr>queue := [], in_Start := False,
                    promises_set := promises_set e \<union> blk_p ` set (queue e) \<union> {next_promise e},
                    next_promise := next_promise e + 1\<rparr>,
                 fold (\<lambda>b. the (blk_f b)) (queue e) u)"
  using assms by (simp add: Stop_def Exec_def Start_def Start_loop_closures)

lemma Stop_not_running:
  assumes "\<not> in_Start e" "next_promise e \<notin> promises_set e"
  shows "Stop (e, u) = None"
  using assms by (simp add: Stop_def Exec_def)

text \<open>
  Claim C9, as amended. \<^verbatim>\<open>Stop\<close> is not idempotent. Called while a thread is inside
  \<^verbatim>\<open>Start\<close> (and every block already queued holds a closure), the first \<^verbatim>\<open>Stop\<close>
  returns after the queued closures have run, in order, and the thread has left the loop
  with the queue empty. A second \<^verbatim>\<open>Stop\<close> then pushes another empty block that no
  thread takes, and does not return.
\<close>

theorem Stop_twice:
  assumes running: "in_Start e"
    and closures: "\<forall>b \<in> set (queue e). blk_f b \<noteq> None"
    and ok: "Executor_ok e"
    and e': "e' = e\<lparr>queue := [], in_Start := False,
                promises_set := promises_set e \<union> blk_p ` set (queue e) \<union> {next_promise e},
                next_promise := next_promise e + 1\<rparr>"
    and u': "u' = fold (\<lambda>b. the (blk_f b)) (queue e) u"
  shows "Stop (e, u) = Some (e', u') \<and> Stop (e', u') = None"
proof -
  have first: "Stop (e, u) = Some (e', u')"
    unfolding e' u' by (rule Stop_running [OF running closures])
  have fresh: "next_promise e' \<notin> promises_set e'"
    using ok by (auto simp: Executor_ok_def e')
  have second: "Stop (e', u') = None"
    by (rule Stop_not_running) (use fresh in \<open>simp_all add: e'\<close>)
  show ?thesis using first second by simp
qed

text \<open>
  The theorem on an executor whose thread is waiting with one closure (the successor
  function on a counter that holds 5) in the queue.
\<close>

theorem Stop_twice_witness:
  "Stop (\<lparr>queue = [\<lparr>blk_f = Some Suc, blk_p = 0\<rparr>], in_Start = True,
          promises_set = {}, next_promise = 1\<rparr>, 5 :: nat)
     = Some (\<lparr>queue = [], in_Start = False, promises_set = {0, 1}, next_promise = 2\<rparr>, 6)
   \<and> Stop (\<lparr>queue = [], in_Start = False, promises_set = {0, 1}, next_promise = 2\<rparr>, 6 :: nat) = None"
proof -
  let ?e = "\<lparr>queue = [\<lparr>blk_f = Some Suc, blk_p = 0\<rparr>], in_Start = True,
             promises_set = {}, next_promise = 1 :: nat\<rparr>"
  have ok: "Executor_ok ?e" by (simp add: Executor_ok_def)
  have e': "\<lparr>queue = [], in_Start = False, promises_set = {0, 1}, next_promise = 2 :: nat\<rparr>
      = ?e\<lparr>queue := [], in_Start := False,
            promises_set := promises_set ?e \<union> blk_p ` set (queue ?e) \<union> {next_promise ?e},
            next_promise := next_promise ?e + 1\<rparr>"
    by (simp add: insert_commute)
  have u': "(6 :: nat) = fold (\<lambda>b. the (blk_f b)) (queue ?e) 5" by simp
  show ?thesis
    by (rule Stop_twice [of ?e _ _ "5 :: nat", OF _ _ ok e' u']) simp_all
qed

text \<open>
  The claim as it was stated fails on a freshly started executor with an empty queue: the
  first \<^verbatim>\<open>Stop\<close> returns, the second one never does.
\<close>

theorem Stop_second_call_blocks:
  "Stop (\<lparr>queue = [], in_Start = True, promises_set = {}, next_promise = 0\<rparr>, ())
     = Some (\<lparr>queue = [], in_Start = False, promises_set = {0}, next_promise = 1\<rparr>, ())
   \<and> Stop (\<lparr>queue = [], in_Start = False, promises_set = {0}, next_promise = 1\<rparr>, ()) = None"
  by (simp add: Stop_def Exec_def Start_def)

section \<open>Properties of double arithmetic\<close>

lemma binary_exponent_ge1:
  assumes "1 \<le> x"
  shows "power_int 2 (binary_exponent x) \<le> x \<and> x < power_int 2 (binary_exponent x + 1)"
proof -
  let ?n = "\<lfloor>x\<rfloor>"
  have n: "0 < ?n" using assms by simp
  from bitlen_bounds [OF n] have b: "2 ^ nat (bitlen ?n - 1) \<le> ?n" "?n < 2 ^ nat (bitlen ?n)" by simp_all
  have p: "1 \<le> bitlen ?n" using n bitlen_eq_zero_iff [of ?n] bitlen_nonneg [of ?n] by linarith
  have e: "binary_exponent x = bitlen ?n - 1" using assms by (simp add: binary_exponent_def)
  have "power_int 2 (bitlen ?n - 1) = (2::real) ^ nat (bitlen ?n - 1)"
    using p by (simp add: power_int_def)
  moreover have "real_of_int (2 ^ nat (bitlen ?n - 1)) \<le> real_of_int ?n" using b(1) by linarith
  ultimately have lo: "power_int 2 (bitlen ?n - 1) \<le> x"
    by (simp add: le_floor_iff) 
  have "power_int 2 (bitlen ?n - 1 + 1) = (2::real) ^ nat (bitlen ?n)"
    using p by (simp add: power_int_def)
  moreover have "?n + 1 \<le> 2 ^ nat (bitlen ?n)" using b(2) by simp
  then have "real_of_int (?n + 1) \<le> real_of_int (2 ^ nat (bitlen ?n))" by linarith
  then have "x < 2 ^ nat (bitlen ?n)" by (simp add: floor_less_iff) linarith
  ultimately have hi: "x < power_int 2 (bitlen ?n - 1 + 1)" by simp
  from lo hi show ?thesis unfolding e by simp
qed


lemma binary_exponent_lt1:
  assumes "0 < x" "x < 1"
  shows "power_int 2 (binary_exponent x) \<le> x \<and> x < power_int 2 (binary_exponent x + 1)"
proof -
  let ?z = "1 / x"
  let ?n = "\<lceil>?z\<rceil> - 1"
  let ?k = "bitlen ?n"
  have z1: "1 < ?z" using assms by simp
  then have n: "0 < ?n" by (simp add: less_ceiling_iff)
  from bitlen_bounds [OF n] have b: "2 ^ nat (?k - 1) \<le> ?n" "?n < 2 ^ nat ?k" by simp_all
  have p: "1 \<le> ?k" using n bitlen_eq_zero_iff [of ?n] bitlen_nonneg [of ?n] by linarith
  have e: "binary_exponent x = - ?k" using assms by (simp add: binary_exponent_def)
  have nz: "real_of_int ?n < ?z" using ceiling_correct [of ?z] by simp
  have zn: "?z \<le> real_of_int ?n + 1" using ceiling_correct [of ?z] by simp
  have "real_of_int (2 ^ nat (?k - 1)) \<le> real_of_int ?n" using b(1) by linarith
  with nz have lo: "2 ^ nat (?k - 1) < ?z" by simp
  have "\<lceil>?z\<rceil> \<le> 2 ^ nat ?k" using b(2) by simp
  then have hi: "?z \<le> 2 ^ nat ?k" using ceiling_le_iff [of ?z "2 ^ nat ?k"] by simp
  have pk: "power_int 2 (- ?k) = 1 / (2::real) ^ nat ?k"
  proof -
    have "power_int (2::real) (- ?k) = inverse (power_int 2 ?k)"
      by (simp only: power_int_minus)
    also have "power_int (2::real) ?k = 2 ^ nat ?k"
      using p by (simp add: power_int_def)
    finally show ?thesis by (simp add: inverse_eq_divide)
  qed
  have pk1: "power_int 2 (- ?k + 1) = 1 / (2::real) ^ nat (?k - 1)"
  proof -
    have "- ?k + 1 = - (?k - 1)" by simp
    then have "power_int (2::real) (- ?k + 1) = inverse (power_int 2 (?k - 1))"
      by (simp only: power_int_minus)
    also have "power_int (2::real) (?k - 1) = 2 ^ nat (?k - 1)"
      using p by (simp add: power_int_def)
    finally show ?thesis by (simp add: inverse_eq_divide)
  qed
  have "1 / (2::real) ^ nat ?k \<le> x"
    using hi assms(1) by (simp add: field_simps)
  moreover have "x < 1 / (2::real) ^ nat (?k - 1)"
    using lo assms(1) by (simp add: field_simps)
  ultimately show ?thesis unfolding e pk pk1 by simp
qed

lemma binary_exponent_bounds:
  assumes "0 < x"
  shows "power_int 2 (binary_exponent x) \<le> x" "x < power_int 2 (binary_exponent x + 1)"
  using binary_exponent_ge1 [of x] binary_exponent_lt1 [of x] assms by (cases "1 \<le> x"; simp)+

lemma round_half_even_error: "\<bar>real_of_int (round_half_even x) - x\<bar> \<le> 1 / 2"
  unfolding round_half_even_def Let_def by (auto simp: abs_le_iff)



lemma round_double_error:
  "\<bar>round_double x - x\<bar> \<le> \<bar>x\<bar> / 2 ^ 53"
proof (cases "x = 0")
  case True
  then show ?thesis by (simp add: round_double_def)
next
  case False
  define E where "E = binary_exponent \<bar>x\<bar>"
  define p where "p = (power_int 2 (E - 52) :: real)"
  have pos: "0 < p" by (simp add: p_def)
  have ax: "0 < \<bar>x\<bar>" using False by simp
  have lo: "power_int 2 E \<le> \<bar>x\<bar>" unfolding E_def by (rule binary_exponent_bounds(1) [OF ax])
  have pE: "p = power_int 2 E / 2 ^ 52" unfolding p_def by (simp add: power_int_diff)
  have r: "round_double x = of_int (round_half_even (x / p)) * p"
    using False by (simp add: round_double_def Let_def E_def p_def)
  have "of_int (round_half_even (x / p)) * p - x = (of_int (round_half_even (x / p)) - x / p) * p"
    using pos by (simp add: left_diff_distrib)
  then have "\<bar>round_double x - x\<bar> = \<bar>of_int (round_half_even (x / p)) - x / p\<bar> * p"
    unfolding r using pos by (simp only: abs_mult)
  also have "\<dots> \<le> (1 / 2) * p"
    by (rule mult_right_mono [OF round_half_even_error]) (use pos in simp)
  also have "\<dots> = power_int 2 E / 2 ^ 53" unfolding pE by simp
  also have "\<dots> \<le> \<bar>x\<bar> / 2 ^ 53" using lo by (simp add: divide_right_mono)
  finally show ?thesis .
qed

lemma round_double_abs: "\<bar>round_double x\<bar> \<le> \<bar>x\<bar> + \<bar>x\<bar> / 2 ^ 53"
  using round_double_error [of x] by linarith












section \<open>Properties of model distribution\<close>
















section \<open>Unfolding the examples\<close>

lemma int32_of_small: "0 \<le> v \<Longrightarrow> v < 2147483648 \<Longrightarrow> int32_of v = v"
  by (simp add: int32_of_def)

lemmas example_defs =
  server_pending_def server_empty_def env_example_def meta_example_def UpdateBuf_empty_def
  NDArray_of_blob_def NDArray_new_def copy_example_def sizeof_example_def real_type_example_def

lemmas dispatcher_defs =
  ApplyUpdates_def ApplyUpdatesDefault_def apply_updater_def copy_to_store_def clear_request_def
  set_update_buf_def get_stored_def set_stored_def has_multi_precision_copy_def emit_def
  DefaultStorageResponse_def DefaultAutoPull_def int_ok_def int32_of_small

lemma Depair_example_dense: "DepairDataHandleType 0 = Inr \<lparr>requestType = kDefaultPushPull, dtype = 0\<rparr>"
  by (simp add: DepairDataHandleType_def int_ok_def floor_sqrt_small RequestType_of_int_def
      signed_divide_int_def)

lemma floor_sqrt_9: "floor_sqrt 9 = 3"
  by code_simp

lemma Depair_example_row_sparse:
  "DepairDataHandleType 1 = Inr \<lparr>requestType = kRowSparsePushPull, dtype = 0\<rparr>"
  by (simp add: DepairDataHandleType_def int_ok_def floor_sqrt_9 RequestType_of_int_def
      signed_divide_int_def)

lemma DecodeKey_example: "k < 2147483648 \<Longrightarrow> DecodeKey env_example k = int k"
  by (simp add: DecodeKey_def int32_of_def env_example_def)

lemma env_example_fields:
  "kFloat32 env_example = 0" "NumWorkers env_example = 2"
  "mshadow_sizeof env_example = sizeof_example"
  "MSHADOW_REAL_TYPE env_example = real_type_example"
  by (simp_all add: env_example_def)


lemma floor_sqrt_65: "floor_sqrt 65 = 8" by code_simp


lemma Depair_example_rsp_f16:
  "DepairDataHandleType 8 = Inr \<lparr>requestType = kRowSparsePushPull, dtype = 2\<rparr>"
  by (simp add: DepairDataHandleType_def int_ok_def floor_sqrt_65 RequestType_of_int_def
      signed_divide_int_def)

lemma env_example_flags:
  "\<not> ENABLE_LEMETHOD env_example" "\<not> ENABLE_TSENGINE env_example"
  "CopyFromTo env_example = copy_example" "ndarray_Copy env_example = copy_data_example"
  "plus_assign env_example = plus_example"
  by (simp_all add: env_example_def)

lemmas serve_defs =
  CommandHandle_def CommandType_of_int_def DataHandleEx_def DataHandleDefault_def merge_dense_def
  DataHandleRowSparse_def InitRowSparseStored_def RowSparsePullResponse_def
  CreateMultiPrecisionCopies_def CreateMultiPrecisionCopy_def
  size_t_of_int_def signed_divide_int_def Let_def
  KVStoreDistServer_new_def Run_def set_updater_def msgs_one_pending_def
  Depair_example_dense DecodeKey_example env_example_fields env_example_flags
  ApplyUpdates_def ApplyUpdatesDefault_def apply_updater_def copy_to_store_def clear_request_def
  set_update_buf_def get_stored_def set_stored_def has_multi_precision_copy_def emit_def
  DefaultStorageResponse_def DefaultAutoPull_def int_ok_def int32_of_small
  meta_example_def NDArray_of_blob_def NDArray_new_def copy_example_def copy_data_example_def
  plus_example_def sizeof_example_def real_type_example_def UpdateBuf_empty_def

lemma one_pending:
  "serve env_example (msgs_one_pending 0) (Run (KVStoreDistServer_new False)) =
     Inr \<lparr>sync_mode = True, controller_set = False, updater = None,
          store = [(5, NDArray_of_blob [1] 0 [1, 2, 3, 4])],
          store_realt = Map.empty,
          update_buf = (\<lambda>key. UpdateBuf_empty)
            (5 := \<lparr>request = [meta_example 0 True True 9],
                  merged = Some (NDArray_of_blob [1] 0 [8, 8, 8, 8]), temp_array = None\<rparr>),
          decomp_buf = Map.empty, exec_in_Start = True, multi_precision = False,
          gradient_compression = [], threadPool = \<lparr>stop = False, tasks = []\<rparr>,
          num_aggregation_member = 0, iteration = 0, store_v = (\<lambda>key. 0),
          outbox = [AppResponse \<lparr>head = 3, body = []\<rparr>, Response (meta_example 0 True False 9)]\<rparr>"
  by (simp add: serve_defs)

text \<open>
  A run of the whole server, after the second scenario of the specification: two workers,
  sync mode, an updater; key 5 is initialised with the bytes 9 9 9 9, worker 9 pushes
  8 8 8 8 and worker 10 pushes 1 1 1 1, both asking for the value. The second push
  completes the cohort: the updater is called once with the sum, both workers receive the
  updated bytes 0 0 0 0, and nothing is pending.
\<close>

lemma dense_sync_barrier_example:
  "outbox (projr (serve env_example
     [Command \<lparr>head = 3, body = []\<rparr>,
      Data (meta_example 0 True False 9) \<lparr>keys = [5], vals = [9, 9, 9, 9], lens = [4]\<rparr>,
      Data (meta_example 0 True True 9) \<lparr>keys = [5], vals = [8, 8, 8, 8], lens = [4]\<rparr>,
      Data (meta_example 0 True True 10) \<lparr>keys = [5], vals = [1, 1, 1, 1], lens = [4]\<rparr>]
     (set_updater updater_example (Run (KVStoreDistServer_new False)))))
   = [AppResponse \<lparr>head = 3, body = []\<rparr>,
      Response (meta_example 0 True False 9),
      UpdaterCall 5 (NDArray_of_blob [1] 0 [9, 9, 9, 9]) (NDArray_of_blob [1] 0 [9, 9, 9, 9]),
      ResponseKV (meta_example 0 True True 9) \<lparr>keys = [5], vals = [0, 0, 0, 0], lens = [4]\<rparr>,
      ResponseKV (meta_example 0 True True 10) \<lparr>keys = [5], vals = [0, 0, 0, 0], lens = [4]\<rparr>]
   \<and> request (update_buf (projr (serve env_example
     [Command \<lparr>head = 3, body = []\<rparr>,
      Data (meta_example 0 True False 9) \<lparr>keys = [5], vals = [9, 9, 9, 9], lens = [4]\<rparr>,
      Data (meta_example 0 True True 9) \<lparr>keys = [5], vals = [8, 8, 8, 8], lens = [4]\<rparr>,
      Data (meta_example 0 True True 10) \<lparr>keys = [5], vals = [1, 1, 1, 1], lens = [4]\<rparr>]
     (set_updater updater_example (Run (KVStoreDistServer_new False))))) 5) = []"
  by (simp add: serve_defs updater_example_def)

section \<open>Properties of the dispatch of data requests\<close>

text \<open>
  Claim C6. Whenever the LeMethod environment flag is set, every inbound data request
  whose request type (as \<open>DepairDataHandleType\<close> reads it from the command value) is
  row-sparse or compressed fails with \<open>UnsupportedMode\<close>; a request that the handler
  does not reject is a dense one.
\<close>

theorem LeMethod_only_dense:
  assumes le: "ENABLE_LEMETHOD env"
    and ty: "DepairDataHandleType (cmd req_meta) = Inr ty"
  shows "(requestType ty = kRowSparsePushPull \<or> requestType ty = kCompressedPushPull
            \<longrightarrow> DataHandleEx env req_meta req_data s = Inl UnsupportedMode)
       \<and> (\<forall>s'. DataHandleEx env req_meta req_data s = Inr s' \<longrightarrow> requestType ty = kDefaultPushPull)"
proof (intro conjI impI allI)
  assume "requestType ty = kRowSparsePushPull \<or> requestType ty = kCompressedPushPull"
  then have "requestType ty \<noteq> kDefaultPushPull" by auto
  then show "DataHandleEx env req_meta req_data s = Inl UnsupportedMode"
    using le ty by (simp add: DataHandleEx_def)
next
  fix s'
  assume ok: "DataHandleEx env req_meta req_data s = Inr s'"
  show "requestType ty = kDefaultPushPull"
  proof (rule ccontr)
    assume "requestType ty \<noteq> kDefaultPushPull"
    then have "DataHandleEx env req_meta req_data s = Inl UnsupportedMode"
      using le ty by (simp add: DataHandleEx_def)
    with ok show False by simp
  qed
qed

text \<open>The theorem on a row-sparse pull (command value 1) with the flag set.\<close>

theorem LeMethod_only_dense_witness:
  "ENABLE_LEMETHOD (env_example\<lparr>ENABLE_LEMETHOD := True\<rparr>)
   \<and> DepairDataHandleType (cmd (meta_example 1 False True 9))
       = Inr \<lparr>requestType = kRowSparsePushPull, dtype = 0\<rparr>
   \<and> DataHandleEx (env_example\<lparr>ENABLE_LEMETHOD := True\<rparr>) (meta_example 1 False True 9)
        \<lparr>keys = [5, 6], vals = [], lens = []\<rparr> server_pending = Inl UnsupportedMode
   \<and> DepairDataHandleType (cmd (meta_example 0 False True 9))
       = Inr \<lparr>requestType = kDefaultPushPull, dtype = 0\<rparr>
   \<and> DataHandleEx (env_example\<lparr>ENABLE_LEMETHOD := True\<rparr>) (meta_example 0 False True 9)
        \<lparr>keys = [5], vals = [], lens = []\<rparr> server_pending = Inr server_pending"
proof -
  have le: "ENABLE_LEMETHOD (env_example\<lparr>ENABLE_LEMETHOD := True\<rparr>)" by simp
  have ty: "DepairDataHandleType (cmd (meta_example 1 False True 9))
       = Inr \<lparr>requestType = kRowSparsePushPull, dtype = 0\<rparr>"
    by (simp add: meta_example_def Depair_example_row_sparse)
  have ty0: "DepairDataHandleType (cmd (meta_example 0 False True 9))
       = Inr \<lparr>requestType = kDefaultPushPull, dtype = 0\<rparr>"
    by (simp add: meta_example_def Depair_example_dense)
  have dense: "DataHandleEx (env_example\<lparr>ENABLE_LEMETHOD := True\<rparr>) (meta_example 0 False True 9)
        \<lparr>keys = [5], vals = [], lens = []\<rparr> server_pending = Inr server_pending"
    by (simp add: DataHandleEx_def ty0) (simp add: meta_example_def)
  from LeMethod_only_dense [OF le ty, of "\<lparr>keys = [5, 6], vals = [], lens = []\<rparr>" server_pending]
  show ?thesis using le ty ty0 dense by simp
qed

lemma DefaultStorageResponse_uninitialised:
  "map_of (store s) key = None \<Longrightarrow> DefaultStorageResponse env ty key req_meta req_data s = Inl NotInitialized"
  by (simp add: DefaultStorageResponse_def)

lemma RowSparsePullResponse_uninitialised:
  "map_of (store s) master_key = None \<Longrightarrow> 0 < num_rows \<Longrightarrow>
   RowSparsePullResponse env ty master_key num_rows req_meta req_data s = Inl NotInitialized"
  by (simp add: RowSparsePullResponse_def)

text \<open>
  Claim C7, as amended. Take a pull request (dense with its one key, or row-sparse with
  at least one requested row) on a key that holds no tensor. When the LeMethod flag is not
  set, the request fails with \<open>NotInitialized\<close>; it returns no value. With the flag set,
  a row-sparse pull fails with \<open>UnsupportedMode\<close>; a dense pull marked \<^verbatim>\<open>INIT\<close> fails
  with \<open>NotInitialized\<close>; a dense pull marked \<^verbatim>\<open>LOCAL_AGGREGATION\<close> is handed to the
  local aggregation; and every other dense pull is dropped: the handler returns without
  failure and without reply.
\<close>

theorem pull_uninitialised:
  assumes ty: "DepairDataHandleType (cmd req_meta) = Inr ty"
    and pl: "\<not> push req_meta"
    and wf: "(requestType ty = kDefaultPushPull \<and> length (keys req_data) = 1)
           \<or> (requestType ty = kRowSparsePushPull \<and> 2 \<le> length (keys req_data))"
    and un: "map_of (store s) (DecodeKey env (keys req_data ! 0)) = None"
  shows "(\<not> ENABLE_LEMETHOD env \<longrightarrow> DataHandleEx env req_meta req_data s = Inl NotInitialized)
       \<and> (ENABLE_LEMETHOD env \<and> requestType ty = kRowSparsePushPull \<longrightarrow>
            DataHandleEx env req_meta req_data s = Inl UnsupportedMode)
       \<and> (ENABLE_LEMETHOD env \<and> requestType ty = kDefaultPushPull \<and> control_cmd req_meta = INIT \<longrightarrow>
            DataHandleEx env req_meta req_data s = Inl NotInitialized)
       \<and> (ENABLE_LEMETHOD env \<and> requestType ty = kDefaultPushPull
            \<and> control_cmd req_meta = LOCAL_AGGREGATION \<longrightarrow>
            DataHandleEx env req_meta req_data s = LocalAggregation env req_meta req_data s)
       \<and> (ENABLE_LEMETHOD env \<and> requestType ty = kDefaultPushPull
            \<and> control_cmd req_meta \<noteq> INIT \<and> control_cmd req_meta \<noteq> LOCAL_AGGREGATION \<longrightarrow>
            DataHandleEx env req_meta req_data s = Inr s)"
proof (intro conjI impI)
  assume le: "\<not> ENABLE_LEMETHOD env"
  from wf show "DataHandleEx env req_meta req_data s = Inl NotInitialized"
  proof
    assume a: "requestType ty = kDefaultPushPull \<and> length (keys req_data) = 1"
    have "DataHandleDefault env ty req_meta req_data s = Inl NotInitialized"
      using a pl un by (simp add: DataHandleDefault_def DefaultStorageResponse_uninitialised)
    then show ?thesis using le ty a by (simp add: DataHandleEx_def)
  next
    assume a: "requestType ty = kRowSparsePushPull \<and> 2 \<le> length (keys req_data)"
    then have ne: "keys req_data \<noteq> []" and rows: "0 < length (keys req_data) - 1" by auto
    have "DataHandleRowSparse env ty req_meta req_data s = Inl NotInitialized"
      using ne rows pl un by (simp add: DataHandleRowSparse_def Let_def RowSparsePullResponse_uninitialised)
    then show ?thesis using le ty a by (simp add: DataHandleEx_def)
  qed
next
  assume "ENABLE_LEMETHOD env \<and> requestType ty = kRowSparsePushPull"
  then show "DataHandleEx env req_meta req_data s = Inl UnsupportedMode"
    using ty by (simp add: DataHandleEx_def)
next
  assume a: "ENABLE_LEMETHOD env \<and> requestType ty = kDefaultPushPull \<and> control_cmd req_meta = INIT"
  with wf have k: "length (keys req_data) = 1" by auto
  have "DataHandleDefault env ty req_meta req_data s = Inl NotInitialized"
    using k pl un by (simp add: DataHandleDefault_def DefaultStorageResponse_uninitialised)
  then show "DataHandleEx env req_meta req_data s = Inl NotInitialized"
    using a ty by (simp add: DataHandleEx_def)
next
  assume "ENABLE_LEMETHOD env \<and> requestType ty = kDefaultPushPull
            \<and> control_cmd req_meta = LOCAL_AGGREGATION"
  then show "DataHandleEx env req_meta req_data s = LocalAggregation env req_meta req_data s"
    using ty by (simp add: DataHandleEx_def)
next
  assume "ENABLE_LEMETHOD env \<and> requestType ty = kDefaultPushPull
            \<and> control_cmd req_meta \<noteq> INIT \<and> control_cmd req_meta \<noteq> LOCAL_AGGREGATION"
  then show "DataHandleEx env req_meta req_data s = Inr s"
    using ty by (simp add: DataHandleEx_def)
qed

text \<open>
  The theorem on pulls from a server that stores nothing: a dense pull of key 5 without
  the LeMethod flag, and a row-sparse pull of row 101 of master key 100 with it.
\<close>

theorem pull_uninitialised_witness:
  "DataHandleEx env_example (meta_example 0 False True 9) \<lparr>keys = [5], vals = [], lens = []\<rparr>
     server_empty = Inl NotInitialized
   \<and> DataHandleEx (env_example\<lparr>ENABLE_LEMETHOD := True\<rparr>) (meta_example 1 False True 9)
       \<lparr>keys = [100, 101], vals = [], lens = []\<rparr> server_empty = Inl UnsupportedMode"
proof -
  have t0: "DepairDataHandleType (cmd (meta_example 0 False True 9))
       = Inr \<lparr>requestType = kDefaultPushPull, dtype = 0\<rparr>"
    by (simp add: meta_example_def Depair_example_dense)
  have t1: "DepairDataHandleType (cmd (meta_example 1 False True 9))
       = Inr \<lparr>requestType = kRowSparsePushPull, dtype = 0\<rparr>"
    by (simp add: meta_example_def Depair_example_row_sparse)
  have p0: "\<not> push (meta_example 0 False True 9)" and p1: "\<not> push (meta_example 1 False True 9)"
    by (simp_all add: meta_example_def)
  have w0: "requestType \<lparr>requestType = kDefaultPushPull, dtype = 0\<rparr> = kDefaultPushPull
          \<and> length (keys \<lparr>keys = [5], vals = [], lens = []\<rparr>) = 1
      \<or> requestType \<lparr>requestType = kDefaultPushPull, dtype = 0\<rparr> = kRowSparsePushPull
          \<and> 2 \<le> length (keys \<lparr>keys = [5], vals = [], lens = []\<rparr>)" by simp
  have w1: "requestType \<lparr>requestType = kRowSparsePushPull, dtype = 0\<rparr> = kDefaultPushPull
          \<and> length (keys \<lparr>keys = [100, 101], vals = [], lens = []\<rparr>) = 1
      \<or> requestType \<lparr>requestType = kRowSparsePushPull, dtype = 0\<rparr> = kRowSparsePushPull
          \<and> 2 \<le> length (keys \<lparr>keys = [100, 101], vals = [], lens = []\<rparr>)" by simp
  have u0: "map_of (store server_empty)
          (DecodeKey env_example (keys \<lparr>keys = [5], vals = [], lens = []\<rparr> ! 0)) = None"
    by (simp add: server_empty_def)
  have u1: "map_of (store server_empty)
          (DecodeKey (env_example\<lparr>ENABLE_LEMETHOD := True\<rparr>)
             (keys \<lparr>keys = [100, 101], vals = [], lens = []\<rparr> ! 0)) = None"
    by (simp add: server_empty_def)
  have le0: "\<not> ENABLE_LEMETHOD env_example" by (simp add: env_example_def)
  from pull_uninitialised [OF t0 p0 w0 u0] le0
  have a: "DataHandleEx env_example (meta_example 0 False True 9) \<lparr>keys = [5], vals = [], lens = []\<rparr>
     server_empty = Inl NotInitialized" by blast
  from pull_uninitialised [OF t1 p1 w1 u1]
  have b: "DataHandleEx (env_example\<lparr>ENABLE_LEMETHOD := True\<rparr>) (meta_example 1 False True 9)
       \<lparr>keys = [100, 101], vals = [], lens = []\<rparr> server_empty = Inl UnsupportedMode" by simp
  from a b show ?thesis ..
qed

text \<open>
  The claim as it was stated fails with the LeMethod flag set: on a new server the dense
  pull of the uninitialised key 5 is dropped; the handler returns without failure and
  without reply.
\<close>

theorem pull_uninitialised_LeMethod:
  "map_of (store (Run (KVStoreDistServer_new False))) (DecodeKey env_example 5) = None
   \<and> serve (env_example\<lparr>ENABLE_LEMETHOD := True\<rparr>)
        [Data (meta_example 0 False True 9) \<lparr>keys = [5], vals = [], lens = []\<rparr>]
        (Run (KVStoreDistServer_new False))
      = Inr (Run (KVStoreDistServer_new False))"
  by (simp add: DataHandleEx_def meta_example_def Depair_example_dense KVStoreDistServer_new_def Run_def)

section \<open>Properties of the row-sparse pull\<close>

lemma gather_rows_in_bounds:
  assumes "\<forall>k \<in> set ks. 0 \<le> DecodeKey env k - master_key \<and> DecodeKey env k - master_key \<le> 2147483647
             \<and> (nat (DecodeKey env k - master_key) + 1) * unit_size \<le> length dat"
  shows "gather_rows env master_key unit_size dat ks =
           Inr (concat (map (\<lambda>k. take unit_size (drop (nat (DecodeKey env k - master_key) * unit_size) dat)) ks))"
  using assms
proof (induction ks)
  case Nil
  then show ?case by simp
next
  case (Cons k ks)
  then have k: "0 \<le> DecodeKey env k - master_key" "DecodeKey env k - master_key \<le> 2147483647"
    "(nat (DecodeKey env k - master_key) + 1) * unit_size \<le> length dat" by simp_all
  from k have ok: "int_ok (DecodeKey env k - master_key)" by (simp add: int_ok_def)
  from Cons have "gather_rows env master_key unit_size dat ks =
           Inr (concat (map (\<lambda>k. take unit_size (drop (nat (DecodeKey env k - master_key) * unit_size) dat)) ks))"
    by simp
  then show ?case using k ok by (simp add: Let_def)
qed

lemma replicate_first_zero: "(replicate (Suc n) u)[0 := (0::int)] = 0 # replicate n u"
  by simp

text \<open>
  Claim C8, as amended. A row-sparse pull with \<open>R = 0\<close> is answered without values and
  with lengths (the one entry) all zero. For every row-sparse pull on an initialized key
  with \<open>R > 0\<close> requested rows, each of which lies inside the stored value blob, and a
  row size \<open>unit_size = unit_len * sizeof(dtype)\<close> that fits in an \<^verbatim>\<open>int\<close>, the
  response concatenates, for each requested row key in order, the \<open>unit_size\<close> bytes at
  byte offset \<open>row_id * unit_size\<close> of the primary tensor, where \<open>row_id\<close> is the
  decoded row key minus the master key; its lengths array has first entry 0 and every
  other entry equal to \<open>unit_len\<close>.
\<close>

theorem RowSparsePull_rows:
  assumes ks: "keys req_data = mk # row_keys"
    and pl: "\<not> push req_meta"
    and master: "master_key = DecodeKey env mk"
    and ul: "unit_len = prod_list (drop 1 (nd_shape stored))"
    and us: "unit_size = unit_len * mshadow_sizeof env (dtype ty)"
  shows "(row_keys = [] \<longrightarrow>
            DataHandleRowSparse env ty req_meta req_data s =
              Inr (emit (ResponseKV req_meta \<lparr>keys = keys req_data, vals = [], lens = [0]\<rparr>) s))
       \<and> (row_keys \<noteq> []
            \<and> map_of (store s) master_key = Some stored
            \<and> 0 < mshadow_sizeof env (dtype ty) \<and> unit_size < 2147483648
            \<and> (\<forall>k \<in> set row_keys. 0 \<le> DecodeKey env k - master_key
                  \<and> DecodeKey env k - master_key \<le> 2147483647
                  \<and> (nat (DecodeKey env k - master_key) + 1) * unit_size \<le> length (nd_data stored))
          \<longrightarrow>
            DataHandleRowSparse env ty req_meta req_data s =
              Inr (emit (ResponseKV req_meta
                \<lparr>keys = keys req_data,
                 vals = concat (map (\<lambda>k. take unit_size
                                  (drop (nat (DecodeKey env k - master_key) * unit_size) (nd_data stored)))
                                row_keys),
                 lens = 0 # replicate (length row_keys) (int unit_len)\<rparr>) s))"
proof (intro conjI impI)
  assume "row_keys = []"
  then show "DataHandleRowSparse env ty req_meta req_data s =
      Inr (emit (ResponseKV req_meta \<lparr>keys = keys req_data, vals = [], lens = [0]\<rparr>) s)"
    using ks pl by (simp add: DataHandleRowSparse_def RowSparsePullResponse_def Let_def)
next
  assume a: "row_keys \<noteq> []
            \<and> map_of (store s) master_key = Some stored
            \<and> 0 < mshadow_sizeof env (dtype ty) \<and> unit_size < 2147483648
            \<and> (\<forall>k \<in> set row_keys. 0 \<le> DecodeKey env k - master_key
                  \<and> DecodeKey env k - master_key \<le> 2147483647
                  \<and> (nat (DecodeKey env k - master_key) + 1) * unit_size \<le> length (nd_data stored))"
  then have ne: "row_keys \<noteq> []" and st: "map_of (store s) master_key = Some stored"
    and sz: "0 < mshadow_sizeof env (dtype ty)" and fit: "unit_size < 2147483648"
    and inb: "\<forall>k \<in> set row_keys. 0 \<le> DecodeKey env k - master_key
                  \<and> DecodeKey env k - master_key \<le> 2147483647
                  \<and> (nat (DecodeKey env k - master_key) + 1) * unit_size \<le> length (nd_data stored)"
    by simp_all
  let ?nb = "mshadow_sizeof env (dtype ty)"
  have ule: "unit_len \<le> unit_size" unfolding us using sz by simp
  then have ufit: "unit_len < 2147483648" using fit by simp
  have nl: "int32_of (int unit_len) = int unit_len"
    using ufit by (simp add: int32_of_small)
  have prod: "int unit_len * int32_of (int ?nb) = int unit_size"
  proof (cases "unit_len = 0")
    case True
    then show ?thesis by (simp add: us)
  next
    case False
    then have "?nb \<le> unit_size" unfolding us by simp
    then have "?nb < 2147483648" using fit by simp
    then have "int32_of (int ?nb) = int ?nb" by (simp add: int32_of_small)
    then show ?thesis by (simp add: us)
  qed
  have size: "int32_of (int unit_len * int32_of (int ?nb)) = int unit_size"
    unfolding prod using fit by (simp add: int32_of_small)
  have g: "gather_rows env master_key unit_size (nd_data stored) row_keys =
      Inr (concat (map (\<lambda>k. take unit_size
             (drop (nat (DecodeKey env k - master_key) * unit_size) (nd_data stored))) row_keys))"
    by (rule gather_rows_in_bounds [OF inb])
  obtain k ks' where Cons: "row_keys = k # ks'" using ne by (cases row_keys) auto
  have ul': "prod_list (drop (Suc 0) (nd_shape stored)) = unit_len" using ul by simp
  have r: "RowSparsePullResponse env ty master_key (length row_keys) req_meta req_data s =
           Inr (emit (ResponseKV req_meta
             \<lparr>keys = keys req_data,
              vals = concat (map (\<lambda>k. take unit_size
                               (drop (nat (DecodeKey env k - master_key) * unit_size) (nd_data stored)))
                             row_keys),
              lens = 0 # replicate (length row_keys) (int unit_len)\<rparr>) s)"
    using st g nl size unfolding RowSparsePullResponse_def ks ul'
    by (simp add: Let_def Cons ul' del: gather_rows.simps)
  show "DataHandleRowSparse env ty req_meta req_data s =
           Inr (emit (ResponseKV req_meta
             \<lparr>keys = keys req_data,
              vals = concat (map (\<lambda>k. take unit_size
                               (drop (nat (DecodeKey env k - master_key) * unit_size) (nd_data stored)))
                             row_keys),
              lens = 0 # replicate (length row_keys) (int unit_len)\<rparr>) s)"
    using ks pl r master by (simp add: DataHandleRowSparse_def Let_def)
qed

text \<open>
  The theorem on master key 100 with three stored rows of one float32 element: a pull
  of the rows 2 and 0.
\<close>

theorem RowSparsePull_rows_witness:
  "DataHandleRowSparse env_example \<lparr>requestType = kRowSparsePushPull, dtype = 0\<rparr>
     (meta_example 1 False True 9) \<lparr>keys = [100, 102, 100], vals = [], lens = []\<rparr>
     (server_empty\<lparr>store := [(100, \<lparr>nd_storage_type = kRowSparseStorage, nd_shape = [3, 1],
          nd_dtype = 0, nd_data = [1, 1, 1, 1, 2, 2, 2, 2, 3, 3, 3, 3], nd_idx = [0, 1, 2]\<rparr>)]\<rparr>)
   = Inr (emit (ResponseKV (meta_example 1 False True 9)
                  \<lparr>keys = [100, 102, 100], vals = [3, 3, 3, 3, 1, 1, 1, 1], lens = [0, 1, 1]\<rparr>)
            (server_empty\<lparr>store := [(100, \<lparr>nd_storage_type = kRowSparseStorage, nd_shape = [3, 1],
               nd_dtype = 0, nd_data = [1, 1, 1, 1, 2, 2, 2, 2, 3, 3, 3, 3], nd_idx = [0, 1, 2]\<rparr>)]\<rparr>))"
proof -
  let ?stored = "\<lparr>nd_storage_type = kRowSparseStorage, nd_shape = [3, 1],
                  nd_dtype = 0, nd_data = [1, 1, 1, 1, 2, 2, 2, 2, 3, 3, 3, 3], nd_idx = [0, 1, 2]\<rparr>"
  let ?s = "server_empty\<lparr>store := [(100, ?stored)]\<rparr>"
  let ?ty = "\<lparr>requestType = kRowSparsePushPull, dtype = 0\<rparr>"
  let ?m = "meta_example 1 False True 9"
  let ?d = "\<lparr>keys = [100, 102, 100], vals = [], lens = []\<rparr>"
  have d: "DecodeKey env_example 100 = 100" "DecodeKey env_example 102 = 102"
    by (simp_all add: DecodeKey_example)
  have sz: "mshadow_sizeof env_example 0 = 4"
    by (simp add: env_example_def sizeof_example_def)
  have h: "keys ?d = 100 # [102, 100]" "\<not> push ?m" "100 = DecodeKey env_example 100"
    "1 = prod_list (drop 1 (nd_shape ?stored))" "4 = 1 * mshadow_sizeof env_example (dtype ?ty)"
    by (simp_all add: d sz meta_example_def)
  note th = RowSparsePull_rows [of ?d 100 "[102, 100]" ?m 100 env_example 1 ?stored 4 ?ty ?s, OF h]
  have pre: "[102 :: nat, 100] \<noteq> []
      \<and> map_of (store ?s) 100 = Some ?stored
      \<and> 0 < mshadow_sizeof env_example (dtype ?ty) \<and> (4 :: nat) < 2147483648
      \<and> (\<forall>k \<in> set [102 :: nat, 100]. 0 \<le> DecodeKey env_example k - 100
            \<and> DecodeKey env_example k - 100 \<le> 2147483647
            \<and> (nat (DecodeKey env_example k - 100) + 1) * 4 \<le> length (nd_data ?stored))"
    by (simp add: d sz)
  from conjunct2 [OF th, rule_format, OF pre] show ?thesis by (simp add: d)
qed

text \<open>
  The claim as it was stated fails for a requested row that lies outside the stored
  tensor; the source does not check the row id. In the fourth scenario of the
  specification master key 100 is initialised by a push of the row keys 101 and 103
  with the rows 1 1 and 2 2 (float32), which stores a tensor of two rows, 16 bytes; the
  pull of the row keys 101, 102 and 103 then reads at the byte offsets 8, 16 and 24,
  the last two past the end of the tensor.
\<close>

theorem RowSparsePull_rows_outside:
  "map_of (store (projr (serve env_example
      [Data (meta_example 1 True False 9)
         \<lparr>keys = [100, 101, 103],
          vals = [0, 0, 128, 63, 0, 0, 128, 63, 0, 0, 0, 64, 0, 0, 0, 64], lens = [0, 8, 8]\<rparr>]
      (Run (KVStoreDistServer_new False))))) 100
     = Some \<lparr>nd_storage_type = kRowSparseStorage, nd_shape = [2, 2], nd_dtype = 0,
             nd_data = [0, 0, 128, 63, 0, 0, 128, 63, 0, 0, 0, 64, 0, 0, 0, 64], nd_idx = [0, 1]\<rparr>
   \<and> serve env_example
      [Data (meta_example 1 True False 9)
         \<lparr>keys = [100, 101, 103],
          vals = [0, 0, 128, 63, 0, 0, 128, 63, 0, 0, 0, 64, 0, 0, 0, 64], lens = [0, 8, 8]\<rparr>,
       Data (meta_example 1 False True 9) \<lparr>keys = [100, 101, 102, 103], vals = [], lens = []\<rparr>]
      (Run (KVStoreDistServer_new False))
     = Inl UndefinedBehaviour"
  by (simp add: serve_defs Depair_example_row_sparse int32_of_def)

section \<open>Properties of the update dispatcher\<close>

lemma emit_fields [simp]:
  "update_buf (emit ev s) = update_buf s" "store_v (emit ev s) = store_v s"
  "store (emit ev s) = store s" "store_realt (emit ev s) = store_realt s"
  "sync_mode (emit ev s) = sync_mode s" "multi_precision (emit ev s) = multi_precision s"
  "updater (emit ev s) = updater s" "exec_in_Start (emit ev s) = exec_in_Start s"
  by (simp_all add: emit_def)

lemma has_mp_emit [simp]: "has_multi_precision_copy env (emit ev s) ty = has_multi_precision_copy env s ty"
  by (simp add: has_multi_precision_copy_def)

lemma set_stored_fields [simp]:
  "update_buf (set_stored env ty key v s) = update_buf s"
  "store_v (set_stored env ty key v s) = store_v s"
  "sync_mode (set_stored env ty key v s) = sync_mode s"
  "multi_precision (set_stored env ty key v s) = multi_precision s"
  by (simp_all add: set_stored_def)

lemma has_mp_set_stored [simp]:
  "has_multi_precision_copy env (set_stored env' ty' key v s) ty = has_multi_precision_copy env s ty"
  by (simp add: has_multi_precision_copy_def)

lemma set_stored_present:
  "map_of (store s) key \<noteq> None \<Longrightarrow> map_of (store (set_stored env ty key v s)) key \<noteq> None"
  "has_multi_precision_copy env s ty \<Longrightarrow> store_realt (set_stored env ty key v s) key \<noteq> None"
  by (simp_all add: set_stored_def update_conv')

lemma clear_request_fields [simp]:
  "request (update_buf (clear_request key s) key) = []"
  "store_v (clear_request key s) = store_v s"
  "store (clear_request key s) = store s"
  "store_realt (clear_request key s) = store_realt s"
  "multi_precision (clear_request key s) = multi_precision s"
  by (simp_all add: clear_request_def set_update_buf_def)

lemma has_mp_clear_request [simp]:
  "has_multi_precision_copy env (clear_request key s) ty = has_multi_precision_copy env s ty"
  by (simp add: has_multi_precision_copy_def)

lemma respond_all_fields [simp]:
  "update_buf (respond_all reqs s) = update_buf s"
  "store_v (respond_all reqs s) = store_v s"
  "store (respond_all reqs s) = store s"
  "store_realt (respond_all reqs s) = store_realt s"
  "multi_precision (respond_all reqs s) = multi_precision s"
  by (induction reqs arbitrary: s) simp_all

lemma has_mp_respond_all [simp]:
  "has_multi_precision_copy env (respond_all reqs s) ty = has_multi_precision_copy env s ty"
  by (simp add: has_multi_precision_copy_def)

lemma apply_updater_fields:
  assumes "apply_updater env ty key s = Inr s'"
  shows "update_buf s' = update_buf s" "store_v s' = store_v s"
    "multi_precision s' = multi_precision s"
  using assms
  by (auto simp: apply_updater_def Let_def split: option.splits if_splits)

lemma copy_to_store_fields:
  assumes "copy_to_store env ty key s = Inr s'"
  shows "update_buf s' = update_buf s" "store_v s' = store_v s"
  using assms
  by (auto simp: copy_to_store_def split: option.splits if_splits)

lemma DefaultStorageResponse_fields:
  assumes "DefaultStorageResponse env ty key req req_data s = Inr s'"
  shows "update_buf s' = update_buf s" "store_v s' = store_v s" "store s' = store s"
  using assms
  by (auto simp: DefaultStorageResponse_def Let_def split: option.splits)

lemma DefaultAutoPull_fields:
  assumes "DefaultAutoPull env ty key v req req_data s = Inr s'"
  shows "update_buf s' = update_buf s" "store_v s' = store_v s" "store s' = store s"
  using assms
  by (auto simp: DefaultAutoPull_def Let_def split: option.splits if_splits)

lemma respond_pulls_fields:
  assumes "respond_pulls env ty key reqs req_data s = Inr s'"
  shows "update_buf s' = update_buf s \<and> store_v s' = store_v s \<and> store s' = store s"
  using assms
proof (induction reqs arbitrary: s)
  case Nil
  then show ?case by simp
next
  case (Cons req reqs)
  show ?case
  proof (cases "pull req")
    case True
    with Cons.prems obtain s1 where
      s1: "DefaultStorageResponse env ty key req req_data s = Inr s1"
      and r: "respond_pulls env ty key reqs req_data s1 = Inr s'"
      by (auto split: sum.splits)
    from Cons.IH [OF r] DefaultStorageResponse_fields [OF s1] show ?thesis by simp
  next
    case False
    with Cons.prems have "respond_pulls env ty key reqs req_data s = Inr s'" by simp
    from Cons.IH [OF this] show ?thesis .
  qed
qed

lemma ApplyUpdates_not_complete:
  "sync_mode s \<Longrightarrow> length (request (update_buf s key)) \<noteq> NumWorkers env \<Longrightarrow>
   ApplyUpdates env ty key req_data s = Inr s"
  by (simp add: ApplyUpdates_def)

lemma ApplyUpdatesDefault_not_complete:
  "sync_mode s \<Longrightarrow> length (request (update_buf s key)) \<noteq> NumWorkers env \<Longrightarrow>
   ApplyUpdatesDefault env ty key req_meta req_data s = Inr s"
  by (simp add: ApplyUpdatesDefault_def)

lemma ApplyUpdates_complete:
  assumes r: "ApplyUpdates env ty key req_data s = Inr s'"
    and c: "\<not> sync_mode s \<or> length (request (update_buf s key)) = NumWorkers env"
  shows "request (update_buf s' key) = [] \<and> store_v s' = store_v s"
proof -
  from r c obtain s1 where s1: "apply_updater env ty key s = Inr s1"
    by (auto simp: ApplyUpdates_def split: sum.splits)
  note f1 = apply_updater_fields [OF s1]
  show ?thesis
  proof (cases "list_ex pull (request (update_buf s1 key))")
    case True
    with r c s1 obtain s2 s3 where
      s2: "copy_to_store env ty key s1 = Inr s2"
      and s3: "respond_pulls env ty key (request (update_buf s1 key)) req_data s2 = Inr s3"
      and s': "s' = clear_request key s3"
      by (auto simp: ApplyUpdates_def Let_def split: sum.splits)
    from copy_to_store_fields [OF s2] respond_pulls_fields [OF s3] f1 s'
    show ?thesis by simp
  next
    case False
    with r c s1 have
      "copy_to_store env ty key (clear_request key (respond_all (request (update_buf s1 key)) s1)) = Inr s'"
      by (auto simp: ApplyUpdates_def Let_def split: sum.splits)
    from copy_to_store_fields [OF this] f1 show ?thesis by simp
  qed
qed

lemma ApplyUpdatesDefault_complete:
  assumes r: "ApplyUpdatesDefault env ty key req_meta req_data s = Inr s'"
    and c: "\<not> sync_mode s \<or> length (request (update_buf s key)) = NumWorkers env"
  shows "request (update_buf s' key) = [] \<and> store_v s' = (store_v s)(key := store_v s key + 1)"
proof -
  from r c obtain s1 where s1: "apply_updater env ty key s = Inr s1"
    by (auto simp: ApplyUpdatesDefault_def split: sum.splits)
  note f1 = apply_updater_fields [OF s1]
  let ?s3 = "(clear_request key s1)\<lparr>store_v := (store_v (clear_request key s1))
                 (key := store_v (clear_request key s1) key + 1)\<rparr>"
  from r c s1 obtain s4 where
    s4: "copy_to_store env ty key ?s3 = Inr s4"
    and s': "DefaultAutoPull env ty key (store_v s4 key) req_meta req_data s4 = Inr s'"
    by (auto simp: ApplyUpdatesDefault_def Let_def split: sum.splits if_splits)
  from copy_to_store_fields [OF s4] DefaultAutoPull_fields [OF s'] f1
  show ?thesis by simp
qed

lemma apply_updater_succeeds:
  assumes "sync_mode s" "merged (update_buf s key) \<noteq> None"
    and "map_of (store s) key \<noteq> None"
    and "multi_precision s \<longrightarrow> store_realt s key \<noteq> None"
    and "updater s \<noteq> None \<longrightarrow> exec_in_Start s"
  shows "\<exists>s1. apply_updater env ty key s = Inr s1 \<and> map_of (store s1) key \<noteq> None
           \<and> (multi_precision s \<longrightarrow> store_realt s1 key \<noteq> None)"
proof -
  from assms obtain mg where mg: "merged (update_buf s key) = Some mg" by auto
  from assms have "get_stored env s ty key \<noteq> None"
    by (auto simp: get_stored_def has_multi_precision_copy_def)
  then obtain st where st: "get_stored env s ty key = Some st" by auto
  have keep: "\<And>v s0. map_of (store s0) key \<noteq> None \<Longrightarrow>
      (multi_precision s0 \<longrightarrow> store_realt s0 key \<noteq> None) \<Longrightarrow>
      map_of (store (set_stored env ty key v s0)) key \<noteq> None \<and>
      (multi_precision s0 \<longrightarrow> store_realt (set_stored env ty key v s0) key \<noteq> None)"
    by (auto simp: set_stored_def update_conv')
  show ?thesis
  proof (cases "updater s")
    case None
    have "apply_updater env ty key s = Inr (set_stored env ty key (CopyFromTo env mg st) s)"
      using assms(1) mg st None by (simp add: apply_updater_def)
    with keep [of s] assms show ?thesis by simp
  next
    case (Some upd)
    with assms have run: "exec_in_Start s" by simp
    have "apply_updater env ty key s =
        Inr (set_stored env ty key (upd key mg st) (emit (UpdaterCall key mg st) s))"
      using assms(1) mg st Some run by (simp add: apply_updater_def)
    with keep [of "emit (UpdaterCall key mg st) s"] assms show ?thesis by simp
  qed
qed

lemma copy_to_store_succeeds:
  assumes "map_of (store s) key \<noteq> None" "multi_precision s \<longrightarrow> store_realt s key \<noteq> None"
  shows "\<exists>s'. copy_to_store env ty key s = Inr s' \<and> map_of (store s') key \<noteq> None"
  using assms
  by (auto simp: copy_to_store_def has_multi_precision_copy_def update_conv')

lemma respond_pulls_succeeds:
  assumes "map_of (store s) key \<noteq> None"
  shows "\<exists>s'. respond_pulls env ty key reqs req_data s = Inr s'"
  using assms
proof (induction reqs arbitrary: s)
  case Nil
  then show ?case by simp
next
  case (Cons req reqs)
  from Cons.prems obtain st where st: "map_of (store s) key = Some st" by auto
  let ?s1 = "emit (ResponseKV req
      \<lparr>keys = keys req_data,
       vals = take (prod_list (nd_shape st) * mshadow_sizeof env (nd_dtype st)) (nd_data st),
       lens = [int32_of (int (prod_list (nd_shape st) * mshadow_sizeof env (nd_dtype st)))]\<rparr>) s"
  have d: "DefaultStorageResponse env ty key req req_data s = Inr ?s1"
    using st by (simp add: DefaultStorageResponse_def)
  have "map_of (store ?s1) key \<noteq> None" using st by simp
  from Cons.IH [OF this] Cons.IH [OF Cons.prems] d show ?case by auto
qed

lemma ApplyUpdates_succeeds:
  assumes "sync_mode s" "length (request (update_buf s key)) = NumWorkers env"
    and "merged (update_buf s key) \<noteq> None"
    and "map_of (store s) key \<noteq> None"
    and "multi_precision s \<longrightarrow> store_realt s key \<noteq> None"
    and "updater s \<noteq> None \<longrightarrow> exec_in_Start s"
  shows "\<exists>s'. ApplyUpdates env ty key req_data s = Inr s'"
proof -
  from apply_updater_succeeds [OF assms(1) assms(3-6)] obtain s1 where
    s1: "apply_updater env ty key s = Inr s1" and st1: "map_of (store s1) key \<noteq> None"
    and rt1: "multi_precision s \<longrightarrow> store_realt s1 key \<noteq> None" by blast
  have mp1: "multi_precision s1 = multi_precision s" by (rule apply_updater_fields [OF s1])
  show ?thesis
  proof (cases "list_ex pull (request (update_buf s1 key))")
    case True
    from copy_to_store_succeeds [of s1 key env ty] st1 rt1 mp1 obtain s2 where
      s2: "copy_to_store env ty key s1 = Inr s2" and st2: "map_of (store s2) key \<noteq> None" by auto
    from respond_pulls_succeeds [OF st2] obtain s3 where
      "respond_pulls env ty key (request (update_buf s1 key)) req_data s2 = Inr s3" by blast
    with s1 s2 True assms(1,2) show ?thesis by (simp add: ApplyUpdates_def)
  next
    case False
    let ?s2 = "clear_request key (respond_all (request (update_buf s1 key)) s1)"
    from copy_to_store_succeeds [of ?s2 key env ty] st1 rt1 mp1 obtain s3 where
      "copy_to_store env ty key ?s2 = Inr s3" by auto
    with s1 False assms(1,2) show ?thesis by (simp add: ApplyUpdates_def)
  qed
qed

lemma ApplyUpdatesDefault_succeeds:
  assumes "sync_mode s" "length (request (update_buf s key)) = NumWorkers env"
    and "merged (update_buf s key) \<noteq> None"
    and "map_of (store s) key \<noteq> None"
    and "multi_precision s \<longrightarrow> store_realt s key \<noteq> None"
    and "updater s \<noteq> None \<longrightarrow> exec_in_Start s"
    and "requestType ty = kDefaultPushPull"
    and "store_v s key < 2147483647" "- 2147483648 \<le> store_v s key"
  shows "\<exists>s'. ApplyUpdatesDefault env ty key req_meta req_data s = Inr s'"
proof -
  from apply_updater_succeeds [OF assms(1) assms(3-6)] obtain s1 where
    s1: "apply_updater env ty key s = Inr s1" and st1: "map_of (store s1) key \<noteq> None"
    and rt1: "multi_precision s \<longrightarrow> store_realt s1 key \<noteq> None" by blast
  note f1 = apply_updater_fields [OF s1]
  let ?s3 = "(clear_request key s1)\<lparr>store_v := (store_v (clear_request key s1))
                 (key := store_v (clear_request key s1) key + 1)\<rparr>"
  have ok: "int_ok (store_v (clear_request key s1) key + 1)"
    using assms(8,9) f1 by (simp add: int_ok_def)
  have "map_of (store ?s3) key \<noteq> None" "multi_precision ?s3 \<longrightarrow> store_realt ?s3 key \<noteq> None"
    using st1 rt1 f1 by simp_all
  from copy_to_store_succeeds [OF this] obtain s4 where
    s4: "copy_to_store env ty key ?s3 = Inr s4" and st4: "map_of (store s4) key \<noteq> None" by blast
  from st4 assms(7) obtain s5 where
    "DefaultAutoPull env ty key (store_v s4 key) req_meta req_data s4 = Inr s5"
    by (auto simp: DefaultAutoPull_def Let_def)
  with s1 ok s4 assms(1,2) show ?thesis by (simp add: ApplyUpdatesDefault_def Let_def)
qed

text \<open>
  Claim C2. In sync mode, for every key, both dispatchers leave the server as it is (no
  updater call, no copy of \<^verbatim>\<open>merged\<close>, no response) unless the pending request list has
  exactly \<^verbatim>\<open>NumWorkers\<close> entries; when it has, and the dispatcher returns, the pending
  list of the key is empty afterwards. \<^verbatim>\<open>ApplyUpdates\<close> does return in that case when
  \<^verbatim>\<open>merged\<close> and the stored tensors of the key exist and, if an updater is set, the
  executor is running.
\<close>

theorem sync_barrier:
  assumes sync: "sync_mode s"
  shows "(length (request (update_buf s key)) \<noteq> NumWorkers env \<longrightarrow>
            ApplyUpdates env ty key req_data s = Inr s
          \<and> ApplyUpdatesDefault env ty key req_meta req_data s = Inr s)
       \<and> (\<forall>s'. ApplyUpdates env ty key req_data s = Inr s'
               \<and> length (request (update_buf s key)) = NumWorkers env
             \<longrightarrow> request (update_buf s' key) = [])
       \<and> (\<forall>s'. ApplyUpdatesDefault env ty key req_meta req_data s = Inr s'
               \<and> length (request (update_buf s key)) = NumWorkers env
             \<longrightarrow> request (update_buf s' key) = [])
       \<and> (length (request (update_buf s key)) = NumWorkers env
            \<and> merged (update_buf s key) \<noteq> None \<and> map_of (store s) key \<noteq> None
            \<and> (multi_precision s \<longrightarrow> store_realt s key \<noteq> None)
            \<and> (updater s \<noteq> None \<longrightarrow> exec_in_Start s)
          \<longrightarrow> (\<exists>s'. ApplyUpdates env ty key req_data s = Inr s'))"
  using sync ApplyUpdates_not_complete [of s key env ty req_data]
    ApplyUpdatesDefault_not_complete [of s key env ty req_meta req_data]
    ApplyUpdates_complete [of env ty key req_data s]
    ApplyUpdatesDefault_complete [of env ty key req_meta req_data s]
    ApplyUpdates_succeeds [of s key env ty req_data]
  by blast

text \<open>
  The theorem on key 5 with two of two pushes pending (the dispatcher returns and the
  list is empty) and with none pending (nothing happens).
\<close>

theorem sync_barrier_witness:
  "sync_mode server_pending
   \<and> length (request (update_buf server_pending 5)) = NumWorkers env_example
   \<and> \<not> isl (ApplyUpdates env_example \<lparr>requestType = kDefaultPushPull, dtype = 0\<rparr> 5
              \<lparr>keys = [5], vals = [], lens = []\<rparr> server_pending)
   \<and> request (update_buf (projr (ApplyUpdates env_example \<lparr>requestType = kDefaultPushPull, dtype = 0\<rparr> 5
              \<lparr>keys = [5], vals = [], lens = []\<rparr> server_pending)) 5) = []
   \<and> \<not> isl (ApplyUpdatesDefault env_example \<lparr>requestType = kDefaultPushPull, dtype = 0\<rparr> 5
              (meta_example 0 True False 10) \<lparr>keys = [5], vals = [], lens = []\<rparr> server_pending)
   \<and> request (update_buf (projr (ApplyUpdatesDefault env_example
              \<lparr>requestType = kDefaultPushPull, dtype = 0\<rparr> 5
              (meta_example 0 True False 10) \<lparr>keys = [5], vals = [], lens = []\<rparr> server_pending)) 5) = []
   \<and> length (request (update_buf server_empty 5)) = 0
   \<and> ApplyUpdates env_example \<lparr>requestType = kDefaultPushPull, dtype = 0\<rparr> 5
              \<lparr>keys = [5], vals = [], lens = []\<rparr> server_empty = Inr server_empty"
proof -
  let ?ty = "\<lparr>requestType = kDefaultPushPull, dtype = 0\<rparr>"
  let ?d = "\<lparr>keys = [5], vals = [], lens = []\<rparr>"
  let ?m = "meta_example 0 True False 10"
  have sync: "sync_mode server_pending" "sync_mode server_empty"
    by (simp_all add: example_defs)
  have n: "length (request (update_buf server_pending 5)) = NumWorkers env_example"
    "length (request (update_buf server_empty 5)) = 0" "NumWorkers env_example = 2"
    by (simp_all add: example_defs)
  have pre: "merged (update_buf server_pending 5) \<noteq> None"
    "map_of (store server_pending) 5 \<noteq> None"
    "multi_precision server_pending \<longrightarrow> store_realt server_pending 5 \<noteq> None"
    "updater server_pending \<noteq> None \<longrightarrow> exec_in_Start server_pending"
    by (simp_all add: example_defs)
  note th = sync_barrier [OF sync(1), of 5 env_example ?ty ?d ?m]
  from th n(1) pre
  obtain s' where s': "ApplyUpdates env_example ?ty 5 ?d server_pending = Inr s'"
    and e: "request (update_buf s' 5) = []" by blast
  have ok: "\<not> isl (ApplyUpdatesDefault env_example ?ty 5 ?m ?d server_pending)"
    by (simp add: dispatcher_defs example_defs)
  then obtain s'' where s'': "ApplyUpdatesDefault env_example ?ty 5 ?m ?d server_pending = Inr s''"
    by (cases "ApplyUpdatesDefault env_example ?ty 5 ?m ?d server_pending") simp_all
  with th n(1) have e'': "request (update_buf s'' 5) = []" by blast
  from sync_barrier [OF sync(2), of 5 env_example ?ty ?d ?m] n(2,3)
  have "ApplyUpdates env_example ?ty 5 ?d server_empty = Inr server_empty" by simp
  with s' e s'' e'' sync n show ?thesis by simp
qed

text \<open>
  Claim C3, as amended. For every key and every completed update of the dispatcher of
  dense pushes under \<^verbatim>\<open>ENABLE_TSENGINE\<close>, \<^verbatim>\<open>ApplyUpdatesDefault\<close> (sync-mode cohort
  completion, or any async-mode update), the key's version counter is incremented by
  exactly 1 and no other counter changes. The other dispatcher, \<^verbatim>\<open>ApplyUpdates\<close>,
  leaves every version counter as it is.
\<close>

theorem version_increment:
  "(\<forall>s'. ApplyUpdatesDefault env ty key req_meta req_data s = Inr s'
          \<and> (\<not> sync_mode s \<or> length (request (update_buf s key)) = NumWorkers env)
        \<longrightarrow> store_v s' key = store_v s key + 1 \<and> (\<forall>k. k \<noteq> key \<longrightarrow> store_v s' k = store_v s k))
   \<and> (\<forall>s'. ApplyUpdates env ty key req_data s = Inr s' \<longrightarrow> store_v s' = store_v s)"
proof (intro conjI allI impI)
  fix s'
  assume a: "ApplyUpdatesDefault env ty key req_meta req_data s = Inr s'
          \<and> (\<not> sync_mode s \<or> length (request (update_buf s key)) = NumWorkers env)"
  then have "store_v s' = (store_v s)(key := store_v s key + 1)"
    using ApplyUpdatesDefault_complete by blast
  then show "store_v s' key = store_v s key + 1" and "\<And>k. k \<noteq> key \<Longrightarrow> store_v s' k = store_v s k"
    by simp_all
next
  fix s'
  assume a: "ApplyUpdates env ty key req_data s = Inr s'"
  show "store_v s' = store_v s"
  proof (cases "\<not> sync_mode s \<or> length (request (update_buf s key)) = NumWorkers env")
    case True
    with a ApplyUpdates_complete show ?thesis by blast
  next
    case False
    with a show ?thesis by (simp add: ApplyUpdates_def)
  qed
qed

text \<open>The theorem on key 5 with both pushes pending: version 0 becomes 1.\<close>

theorem version_increment_witness:
  "\<not> isl (ApplyUpdatesDefault env_example \<lparr>requestType = kDefaultPushPull, dtype = 0\<rparr> 5
            (meta_example 0 True False 10) \<lparr>keys = [5], vals = [], lens = []\<rparr> server_pending)
   \<and> length (request (update_buf server_pending 5)) = NumWorkers env_example
   \<and> store_v server_pending 5 = 0
   \<and> store_v (projr (ApplyUpdatesDefault env_example \<lparr>requestType = kDefaultPushPull, dtype = 0\<rparr> 5
            (meta_example 0 True False 10) \<lparr>keys = [5], vals = [], lens = []\<rparr> server_pending)) 5 = 1
   \<and> \<not> isl (ApplyUpdates env_example \<lparr>requestType = kDefaultPushPull, dtype = 0\<rparr> 5
            \<lparr>keys = [5], vals = [], lens = []\<rparr> server_pending)
   \<and> store_v (projr (ApplyUpdates env_example \<lparr>requestType = kDefaultPushPull, dtype = 0\<rparr> 5
            \<lparr>keys = [5], vals = [], lens = []\<rparr> server_pending)) = store_v server_pending"
proof -
  let ?ty = "\<lparr>requestType = kDefaultPushPull, dtype = 0\<rparr>"
  let ?d = "\<lparr>keys = [5], vals = [], lens = []\<rparr>"
  let ?r = "ApplyUpdatesDefault env_example ?ty 5 (meta_example 0 True False 10) ?d server_pending"
  let ?q = "ApplyUpdates env_example ?ty 5 ?d server_pending"
  have ok: "\<not> isl ?r" by (simp add: dispatcher_defs example_defs)
  then obtain s' where s': "?r = Inr s'" by (cases ?r) simp_all
  have ok2: "\<not> isl ?q" by (simp add: dispatcher_defs example_defs)
  then obtain s'' where s'': "?q = Inr s''" by (cases ?q) simp_all
  have n: "length (request (update_buf server_pending 5)) = NumWorkers env_example"
    "store_v server_pending 5 = 0"
    by (simp_all add: example_defs)
  note th = version_increment [of env_example ?ty 5 "meta_example 0 True False 10" ?d server_pending]
  from th s' n have "store_v s' 5 = 1" by simp
  moreover from th s'' have "store_v s'' = store_v server_pending" by blast
  ultimately show ?thesis using ok ok2 s' s'' n by simp
qed

text \<open>
  The claim as it was stated fails for \<^verbatim>\<open>ApplyUpdates\<close>: after \<open>msgs_one_pending 0\<close>
  the push of worker 10 completes the cohort of key 5, the sum of the two pushes is copied
  into the stored tensor and the pending list is emptied, and the version of key 5 is
  still 0.
\<close>

theorem version_not_incremented:
  "\<not> isl (serve env_example
        (msgs_one_pending 0 @
           [Data (meta_example 0 True False 10) \<lparr>keys = [5], vals = [1, 1, 1, 1], lens = [4]\<rparr>])
        (Run (KVStoreDistServer_new False)))
   \<and> map_of (store (projr (serve env_example
        (msgs_one_pending 0 @
           [Data (meta_example 0 True False 10) \<lparr>keys = [5], vals = [1, 1, 1, 1], lens = [4]\<rparr>])
        (Run (KVStoreDistServer_new False))))) 5 = Some (NDArray_of_blob [1] 0 [9, 9, 9, 9])
   \<and> request (update_buf (projr (serve env_example
        (msgs_one_pending 0 @
           [Data (meta_example 0 True False 10) \<lparr>keys = [5], vals = [1, 1, 1, 1], lens = [4]\<rparr>])
        (Run (KVStoreDistServer_new False)))) 5) = []
   \<and> store_v (projr (serve env_example
        (msgs_one_pending 0 @
           [Data (meta_example 0 True False 10) \<lparr>keys = [5], vals = [1, 1, 1, 1], lens = [4]\<rparr>])
        (Run (KVStoreDistServer_new False)))) 5 = 0"
  by (simp add: serve_defs)

section \<open>Properties of the command plane\<close>







section \<open>Pending pushes have a merged tensor\<close>

text \<open>
  \<open>pending_has_merged\<close> holds for a new server and is kept by every handler, so it
  holds in every state that \<open>serve\<close> reaches.
\<close>

lemma ApplyUpdates_update_buf:
  assumes r: "ApplyUpdates env ty key req_data s = Inr s'"
  shows "update_buf s' = update_buf s
       \<or> update_buf s' = (update_buf s)(key := (update_buf s key)\<lparr>request := []\<rparr>)"
proof (cases "\<not> sync_mode s \<or> length (request (update_buf s key)) = NumWorkers env")
  case False
  with r show ?thesis by (simp add: ApplyUpdates_def)
next
  case c: True
  from r c obtain s1 where s1: "apply_updater env ty key s = Inr s1"
    by (auto simp: ApplyUpdates_def split: sum.splits)
  note f1 = apply_updater_fields [OF s1]
  show ?thesis
  proof (cases "list_ex pull (request (update_buf s1 key))")
    case True
    with r c s1 obtain s2 s3 where
      s2: "copy_to_store env ty key s1 = Inr s2"
      and s3: "respond_pulls env ty key (request (update_buf s1 key)) req_data s2 = Inr s3"
      and s': "s' = clear_request key s3"
      by (auto simp: ApplyUpdates_def Let_def split: sum.splits)
    from copy_to_store_fields [OF s2] respond_pulls_fields [OF s3] f1 s'
    show ?thesis by (simp add: clear_request_def set_update_buf_def)
  next
    case False
    with r c s1 have
      "copy_to_store env ty key (clear_request key (respond_all (request (update_buf s1 key)) s1)) = Inr s'"
      by (auto simp: ApplyUpdates_def Let_def split: sum.splits)
    from copy_to_store_fields [OF this] f1 show ?thesis
      by (simp add: clear_request_def set_update_buf_def)
  qed
qed

lemma ApplyUpdatesDefault_update_buf:
  assumes r: "ApplyUpdatesDefault env ty key req_meta req_data s = Inr s'"
  shows "update_buf s' = update_buf s
       \<or> update_buf s' = (update_buf s)(key := (update_buf s key)\<lparr>request := []\<rparr>)"
proof (cases "\<not> sync_mode s \<or> length (request (update_buf s key)) = NumWorkers env")
  case False
  with r show ?thesis by (simp add: ApplyUpdatesDefault_def)
next
  case c: True
  from r c obtain s1 where s1: "apply_updater env ty key s = Inr s1"
    by (auto simp: ApplyUpdatesDefault_def split: sum.splits)
  note f1 = apply_updater_fields [OF s1]
  let ?s3 = "(clear_request key s1)\<lparr>store_v := (store_v (clear_request key s1))
                 (key := store_v (clear_request key s1) key + 1)\<rparr>"
  from r c s1 obtain s4 where
    s4: "copy_to_store env ty key ?s3 = Inr s4"
    and s': "DefaultAutoPull env ty key (store_v s4 key) req_meta req_data s4 = Inr s'"
    by (auto simp: ApplyUpdatesDefault_def Let_def split: sum.splits if_splits)
  from copy_to_store_fields [OF s4] DefaultAutoPull_fields [OF s'] f1
  show ?thesis by (simp add: clear_request_def set_update_buf_def)
qed

lemma ApplyUpdates_pending:
  assumes r: "ApplyUpdates env ty key req_data s = Inr s'"
    and others: "\<forall>k. k \<noteq> key \<longrightarrow> request (update_buf s k) \<noteq> [] \<longrightarrow> merged (update_buf s k) \<noteq> None"
    and own: "sync_mode s \<longrightarrow> merged (update_buf s key) \<noteq> None"
  shows "pending_has_merged s'"
proof -
  have async: "request (update_buf s' key) = []" if "\<not> sync_mode s"
    using ApplyUpdates_complete [OF r] that by simp
  show ?thesis
    unfolding pending_has_merged_def
  proof (intro allI impI)
    fix k assume p: "request (update_buf s' k) \<noteq> []"
    show "merged (update_buf s' k) \<noteq> None"
    proof (cases "k = key")
      case True
      with p async own ApplyUpdates_update_buf [OF r] show ?thesis by auto
    next
      case False
      with p others ApplyUpdates_update_buf [OF r] show ?thesis by auto
    qed
  qed
qed

lemma ApplyUpdatesDefault_pending:
  assumes r: "ApplyUpdatesDefault env ty key req_meta req_data s = Inr s'"
    and others: "\<forall>k. k \<noteq> key \<longrightarrow> request (update_buf s k) \<noteq> [] \<longrightarrow> merged (update_buf s k) \<noteq> None"
    and own: "sync_mode s \<longrightarrow> merged (update_buf s key) \<noteq> None"
  shows "pending_has_merged s'"
proof -
  have async: "request (update_buf s' key) = []" if "\<not> sync_mode s"
    using ApplyUpdatesDefault_complete [OF r] that by simp
  show ?thesis
    unfolding pending_has_merged_def
  proof (intro allI impI)
    fix k assume p: "request (update_buf s' k) \<noteq> []"
    show "merged (update_buf s' k) \<noteq> None"
    proof (cases "k = key")
      case True
      with p async own ApplyUpdatesDefault_update_buf [OF r] show ?thesis by auto
    next
      case False
      with p others ApplyUpdatesDefault_update_buf [OF r] show ?thesis by auto
    qed
  qed
qed

lemma merge_dense_merged:
  assumes "merge_dense env s ty dshape recved ub = Inr ub'" "sync_mode s"
  shows "merged ub' \<noteq> None"
  using assms
  by (auto simp: merge_dense_def Let_def split: if_splits option.splits)

lemma DataHandleDefault_pending:
  assumes inv: "pending_has_merged s"
    and r: "DataHandleDefault env ty req_meta req_data s = Inr s'"
  shows "pending_has_merged s'"
proof (cases "push req_meta")
  case False
  with r have "DefaultStorageResponse env ty (DecodeKey env (keys req_data ! 0)) req_meta req_data s = Inr s'"
    by (auto simp: DataHandleDefault_def Let_def split: if_splits)
  from DefaultStorageResponse_fields(1) [OF this] inv show ?thesis
    by (simp add: pending_has_merged_def)
next
  case psh: True
  let ?key = "DecodeKey env (keys req_data ! 0)"
  let ?s0 = "if ENABLE_TSENGINE env then emit (Response req_meta) s else s"
  let ?dshape = "[size_t_of_int (lens req_data ! 0) div mshadow_sizeof env (dtype ty)]"
  let ?recved = "NDArray_of_blob ?dshape (dtype ty) (vals req_data)"
  have inv0: "pending_has_merged ?s0" using inv by (simp add: pending_has_merged_def)
  have sync0: "sync_mode ?s0 = sync_mode s" by simp
  show ?thesis
  proof (cases "get_stored env ?s0 ty ?key")
    case None
    with r psh have "update_buf s' = update_buf s"
      by (auto simp: DataHandleDefault_def Let_def
          dest!: DefaultAutoPull_fields(1) split: if_splits)
    with inv show ?thesis by (simp add: pending_has_merged_def)
  next
    case (Some stored)
    with r psh obtain updates where
      m: "merge_dense env ?s0 ty ?dshape ?recved (update_buf ?s0 ?key) = Inr updates"
      and d: "(ENABLE_TSENGINE env \<and>
                ApplyUpdatesDefault env ty ?key req_meta req_data
                  (set_update_buf ?key (updates\<lparr>request := request updates @
                      replicate (nat (num_merge req_meta)) req_meta\<rparr>) ?s0) = Inr s')
            \<or> (\<not> ENABLE_TSENGINE env \<and>
                ApplyUpdates env ty ?key req_data
                  (set_update_buf ?key (updates\<lparr>request := request updates @ [req_meta]\<rparr>) ?s0) = Inr s')"
      by (auto simp: DataHandleDefault_def Let_def split: if_splits sum.splits)
    have mg: "sync_mode s \<longrightarrow> merged updates \<noteq> None"
      using merge_dense_merged [OF m] by simp
    have others: "\<And>ub. \<forall>k. k \<noteq> ?key \<longrightarrow> request (update_buf (set_update_buf ?key ub ?s0) k) \<noteq> [] \<longrightarrow>
        merged (update_buf (set_update_buf ?key ub ?s0) k) \<noteq> None"
      using inv by (simp add: set_update_buf_def pending_has_merged_def)
    from d show ?thesis
    proof
      assume "ENABLE_TSENGINE env \<and>
                ApplyUpdatesDefault env ty ?key req_meta req_data
                  (set_update_buf ?key (updates\<lparr>request := request updates @
                      replicate (nat (num_merge req_meta)) req_meta\<rparr>) ?s0) = Inr s'"
      then have "ApplyUpdatesDefault env ty ?key req_meta req_data
                  (set_update_buf ?key (updates\<lparr>request := request updates @
                      replicate (nat (num_merge req_meta)) req_meta\<rparr>) ?s0) = Inr s'" by (rule conjunct2)
      from ApplyUpdatesDefault_pending [OF this others] mg show ?thesis
        by (simp add: set_update_buf_def)
    next
      assume "\<not> ENABLE_TSENGINE env \<and>
                ApplyUpdates env ty ?key req_data
                  (set_update_buf ?key (updates\<lparr>request := request updates @ [req_meta]\<rparr>) ?s0) = Inr s'"
      then have "ApplyUpdates env ty ?key req_data
                  (set_update_buf ?key (updates\<lparr>request := request updates @ [req_meta]\<rparr>) ?s0) = Inr s'"
        by (rule conjunct2)
      from ApplyUpdates_pending [OF this others] mg show ?thesis
        by (simp add: set_update_buf_def)
    qed
  qed
qed


lemma dispatch_pending:
  assumes inv: "pending_has_merged s"
    and r: "ApplyUpdates env ty key req_data (set_update_buf key ub s) = Inr s'"
    and own: "sync_mode s \<longrightarrow> merged ub \<noteq> None"
  shows "pending_has_merged s'"
proof (rule ApplyUpdates_pending [OF r])
  show "\<forall>k. k \<noteq> key \<longrightarrow> request (update_buf (set_update_buf key ub s) k) \<noteq> [] \<longrightarrow>
          merged (update_buf (set_update_buf key ub s) k) \<noteq> None"
    using inv by (simp add: set_update_buf_def pending_has_merged_def)
  show "sync_mode (set_update_buf key ub s) \<longrightarrow> merged (update_buf (set_update_buf key ub s) key) \<noteq> None"
    using own by (simp add: set_update_buf_def)
qed

lemma same_update_buf_pending:
  "pending_has_merged s \<Longrightarrow> update_buf s' = update_buf s \<Longrightarrow> pending_has_merged s'"
  by (simp add: pending_has_merged_def)

lemma RowSparsePullResponse_update_buf:
  "RowSparsePullResponse env ty master_key num_rows req_meta req_data s = Inr s' \<Longrightarrow>
   update_buf s' = update_buf s"
  by (auto simp: RowSparsePullResponse_def Let_def split: if_splits option.splits sum.splits)

lemma InitRowSparseStored_update_buf:
  "InitRowSparseStored env ty master_key num_rows req_meta req_data s = Inr s' \<Longrightarrow>
   update_buf s' = update_buf s"
  by (auto simp: InitRowSparseStored_def Let_def split: if_splits)

lemma AccumulateRowSparseGrads_merged:
  assumes r: "AccumulateRowSparseGrads env s ty recved ub = Inr ub'"
  shows "\<exists>m t. ub' = ub\<lparr>merged := Some m, temp_array := t\<rparr>"
proof (cases "has_multi_precision_copy env s ty")
  case True
  with r show ?thesis
    by (auto simp: AccumulateRowSparseGrads_def Let_def split: option.splits)
next
  case False
  with r obtain m where "ub' = ub\<lparr>merged := Some m\<rparr>"
    by (auto simp: AccumulateRowSparseGrads_def Let_def split: option.splits)
  then have "ub' = ub\<lparr>merged := Some m, temp_array := temp_array ub\<rparr>" by simp
  then show ?thesis by blast
qed

lemma DataHandleRowSparse_pending:
  assumes inv: "pending_has_merged s"
    and r: "DataHandleRowSparse env ty req_meta req_data s = Inr s'"
  shows "pending_has_merged s'"
proof (cases "push req_meta")
  case False
  with r have "RowSparsePullResponse env ty (DecodeKey env (keys req_data ! 0))
                 (length (keys req_data) - 1) req_meta req_data s = Inr s'"
    by (auto simp: DataHandleRowSparse_def Let_def split: if_splits)
  from same_update_buf_pending [OF inv RowSparsePullResponse_update_buf [OF this]]
  show ?thesis .
next
  case psh: True
  let ?key = "DecodeKey env (keys req_data ! 0)"
  show ?thesis
  proof (cases "map_of (store s) ?key")
    case None
    with r psh have "InitRowSparseStored env ty ?key (length (keys req_data) - 1) req_meta req_data s = Inr s'"
      by (auto simp: DataHandleRowSparse_def Let_def split: if_splits)
    from same_update_buf_pending [OF inv InitRowSparseStored_update_buf [OF this]]
    show ?thesis .
  next
    case (Some stored)
    from r psh Some have
      "(\<exists>ub. ApplyUpdates env ty ?key req_data (set_update_buf ?key ub s) = Inr s'
            \<and> (sync_mode s \<longrightarrow> merged ub \<noteq> None))
       \<or> (\<exists>ub. \<not> sync_mode s \<and> s' = emit (Response req_meta) (set_update_buf ?key ub s)
            \<and> request ub = request (update_buf s ?key) \<and> (merged ub = None \<longrightarrow> merged (update_buf s ?key) = None))"
      unfolding DataHandleRowSparse_def Let_def
      by (auto split: if_splits sum.splits dest!: AccumulateRowSparseGrads_merged)
    then show ?thesis
    proof (elim disjE exE conjE)
      fix ub
      assume "ApplyUpdates env ty ?key req_data (set_update_buf ?key ub s) = Inr s'"
        and "sync_mode s \<longrightarrow> merged ub \<noteq> None"
      then show ?thesis by (rule dispatch_pending [OF inv])
    next
      fix ub
      assume "s' = emit (Response req_meta) (set_update_buf ?key ub s)"
        and "request ub = request (update_buf s ?key)"
        and "merged ub = None \<longrightarrow> merged (update_buf s ?key) = None"
      with inv show ?thesis
        by (auto simp: pending_has_merged_def set_update_buf_def)
    qed
  qed
qed


lemma DataHandleCompressed_pending:
  assumes inv: "pending_has_merged s"
    and r: "DataHandleCompressed env ty req_meta req_data s = Inr s'"
  shows "pending_has_merged s'"
proof (cases "push req_meta")
  case False
  with r have "DefaultStorageResponse env ty (DecodeKey env (keys req_data ! 0)) req_meta req_data s = Inr s'"
    by (auto simp: DataHandleCompressed_def split: if_splits)
  from same_update_buf_pending [OF inv DefaultStorageResponse_fields(1) [OF this]]
  show ?thesis .
next
  case psh: True
  let ?key = "DecodeKey env (keys req_data ! 1)"
  from r psh have
    "(\<exists>ub. ApplyUpdates env ty ?key req_data (set_update_buf ?key ub s) = Inr s' \<and> merged ub \<noteq> None)
     \<or> update_buf s' = update_buf s"
    unfolding DataHandleCompressed_def Let_def
    by (auto split: if_splits option.splits)
  then show ?thesis
  proof (elim disjE exE conjE)
    fix ub
    assume a: "ApplyUpdates env ty ?key req_data (set_update_buf ?key ub s) = Inr s'"
      and "merged ub \<noteq> None"
    then have "sync_mode s \<longrightarrow> merged ub \<noteq> None" by simp
    with inv a show ?thesis by (rule dispatch_pending)
  next
    assume "update_buf s' = update_buf s"
    with inv show ?thesis by (rule same_update_buf_pending)
  qed
qed

lemma LocalAggregation_update_buf:
  "LocalAggregation env reqMeta reqData s = Inr s' \<Longrightarrow> update_buf s' = update_buf s"
  by (auto simp: LocalAggregation_def Let_def split: if_splits sum.splits)

lemma DataHandleEx_pending:
  assumes inv: "pending_has_merged s"
    and r: "DataHandleEx env req_meta req_data s = Inr s'"
  shows "pending_has_merged s'"
proof -
  from r obtain ty where ty: "DepairDataHandleType (cmd req_meta) = Inr ty"
    by (auto simp: DataHandleEx_def split: sum.splits)
  show ?thesis
  proof (cases "ENABLE_LEMETHOD env")
    case le: True
    from r ty le have
      "LocalAggregation env req_meta req_data s = Inr s'
       \<or> (\<exists>s1 pool. DataHandleDefault env ty req_meta req_data s = Inr s1 \<and> s' = s1\<lparr>threadPool := pool\<rparr>)
       \<or> s' = s"
      by (auto simp: DataHandleEx_def split: if_splits sum.splits option.splits)
    then show ?thesis
    proof (elim disjE exE conjE)
      assume "LocalAggregation env req_meta req_data s = Inr s'"
      from same_update_buf_pending [OF inv LocalAggregation_update_buf [OF this]]
      show ?thesis .
    next
      fix s1 pool
      assume "DataHandleDefault env ty req_meta req_data s = Inr s1"
        and s': "s' = s1\<lparr>threadPool := pool\<rparr>"
      from DataHandleDefault_pending [OF inv this(1)] s' show ?thesis
        by (simp add: pending_has_merged_def)
    next
      assume "s' = s"
      with inv show ?thesis by simp
    qed
  next
    case False
    with r ty inv show ?thesis
      by (auto simp: DataHandleEx_def split: RequestType.splits
          intro: DataHandleRowSparse_pending DataHandleCompressed_pending DataHandleDefault_pending)
  qed
qed

lemma CreateMultiPrecisionCopy_keeps:
  assumes inv: "pending_has_merged s"
    and r: "CreateMultiPrecisionCopy env stored_entry s = Inr s'"
  shows "pending_has_merged s'"
  using assms
  by (auto simp: CreateMultiPrecisionCopy_def Let_def pending_has_merged_def
      split: if_splits option.splits)

lemma CreateMultiPrecisionCopies_loop_keeps:
  "pending_has_merged s \<Longrightarrow> CreateMultiPrecisionCopies_loop env entries s = Inr s' \<Longrightarrow>
   pending_has_merged s'"
proof (induction entries arbitrary: s)
  case Nil
  then show ?case by simp
next
  case (Cons stored_entry entries)
  from Cons.prems(2) obtain s1 where
    s1: "CreateMultiPrecisionCopy env stored_entry s = Inr s1"
    and rest: "CreateMultiPrecisionCopies_loop env entries s1 = Inr s'"
    by (auto split: sum.splits)
  from Cons.IH [OF CreateMultiPrecisionCopy_keeps [OF Cons.prems(1) s1] rest]
  show ?case .
qed

lemma CommandHandle_pending:
  assumes inv: "pending_has_merged s"
    and r: "CommandHandle env recved s = Inr s'"
  shows "pending_has_merged s'"
proof -
  have mp: "pending_has_merged (s\<lparr>multi_precision := True\<rparr>)"
    using inv by (simp add: pending_has_merged_def)
  from r have
    "update_buf s' = update_buf s
     \<or> (\<exists>s1. CreateMultiPrecisionCopies_loop env (store s) (s\<lparr>multi_precision := True\<rparr>) = Inr s1
           \<and> s' = emit (AppResponse recved) s1)"
    by (auto simp: CommandHandle_def CreateMultiPrecisionCopies_def
        split: sum.splits option.splits CommandType.splits if_splits)
  then show ?thesis
  proof (elim disjE exE conjE)
    assume "update_buf s' = update_buf s"
    with inv show ?thesis by (rule same_update_buf_pending)
  next
    fix s1
    assume "CreateMultiPrecisionCopies_loop env (store s) (s\<lparr>multi_precision := True\<rparr>) = Inr s1"
      and s': "s' = emit (AppResponse recved) s1"
    from CreateMultiPrecisionCopies_loop_keeps [OF mp this(1)] s' show ?thesis
      by (simp add: pending_has_merged_def)
  qed
qed

lemma new_server_pending: "pending_has_merged (Run (KVStoreDistServer_new mp))"
  by (simp add: pending_has_merged_def Run_def KVStoreDistServer_new_def UpdateBuf_empty_def)

lemma serve_pending:
  "pending_has_merged s \<Longrightarrow> serve env msgs s = Inr s' \<Longrightarrow> pending_has_merged s'"
proof (induction msgs arbitrary: s)
  case Nil
  then show ?case by simp
next
  case (Cons msg msgs)
  show ?case
  proof (cases msg)
    case (Command recved)
    with Cons.prems(2) obtain s1 where
      s1: "CommandHandle env recved s = Inr s1" and rest: "serve env msgs s1 = Inr s'"
      by (auto split: sum.splits)
    from Cons.IH [OF CommandHandle_pending [OF Cons.prems(1) s1] rest] show ?thesis .
  next
    case (Data req_meta req_data)
    with Cons.prems(2) obtain s1 where
      s1: "DataHandleEx env req_meta req_data s = Inr s1" and rest: "serve env msgs s1 = Inr s'"
      by (auto split: sum.splits)
    from Cons.IH [OF DataHandleEx_pending [OF Cons.prems(1) s1] rest] show ?thesis .
  qed
qed

lemma reachable_pending:
  assumes "serve env msgs (Run (KVStoreDistServer_new mp)) = Inr s"
  shows "request (update_buf s key) \<noteq> [] \<longrightarrow> merged (update_buf s key) \<noteq> None"
  using serve_pending [OF new_server_pending assms] by (simp add: pending_has_merged_def)

section \<open>Properties of the row-sparse push without rows\<close>

lemma set_update_buf_same: "set_update_buf key (update_buf s key) s = s"
  by (simp add: set_update_buf_def)

text \<open>
  Claim C5, as amended. For every row-sparse push with zero rows on an already
  initialized key (whose \<^verbatim>\<open>merged\<close> exists if pushes are pending, which holds in
  every state the server reaches, see \<open>reachable_pending\<close>): in sync mode the
  request is appended to the pending list before the dispatcher looks at it, so it
  counts toward the barrier, and \<^verbatim>\<open>merged\<close> is reset to a row-sparse array without
  rows (zeros) if the pending list was empty and is left as it is otherwise; in async
  mode the request is acknowledged immediately and nothing changes except that under
  mixed precision the float32 staging array \<^verbatim>\<open>temp_array\<close> of the key is allocated if
  it did not exist.
\<close>

theorem RowSparse_push_no_rows:
  assumes ks: "keys req_data = [mk]"
    and psh: "push req_meta"
    and ln: "lens req_data \<noteq> []" "lens req_data ! 0 = 0"
    and mkey: "master_key = DecodeKey env mk"
    and init: "map_of (store s) master_key = Some stored"
    and ub: "ub = update_buf s master_key"
    and inv: "request ub \<noteq> [] \<longrightarrow> merged ub \<noteq> None"
    and mp: "mp = has_multi_precision_copy env s ty"
    and tmp: "tmp = (if mp \<and> temp_array ub = None
                     then Some (NDArray_new kRowSparseStorage (nd_shape stored) (kFloat32 env))
                     else temp_array ub)"
    and zeros: "zeros = NDArray_new kRowSparseStorage (nd_shape stored) (if mp then kFloat32 env else dtype ty)"
  shows "(sync_mode s \<longrightarrow>
            DataHandleRowSparse env ty req_meta req_data s =
              ApplyUpdates env ty master_key req_data
                (set_update_buf master_key
                   (ub\<lparr>temp_array := tmp,
                       merged := (if request ub = [] then Some zeros else merged ub),
                       request := request ub @ [req_meta]\<rparr>) s))
       \<and> (sync_mode s \<and> length (request ub) + 1 \<noteq> NumWorkers env \<longrightarrow>
            DataHandleRowSparse env ty req_meta req_data s =
              Inr (set_update_buf master_key
                     (ub\<lparr>temp_array := tmp,
                       merged := (if request ub = [] then Some zeros else merged ub),
                       request := request ub @ [req_meta]\<rparr>) s))
       \<and> (\<not> sync_mode s \<longrightarrow>
            DataHandleRowSparse env ty req_meta req_data s =
              Inr (emit (Response req_meta) (set_update_buf master_key (ub\<lparr>temp_array := tmp\<rparr>) s)))
       \<and> (\<not> sync_mode s \<and> (mp \<longrightarrow> temp_array ub \<noteq> None) \<longrightarrow>
            DataHandleRowSparse env ty req_meta req_data s = Inr (emit (Response req_meta) s))"
proof -
  let ?ub' = "ub\<lparr>temp_array := tmp,
              merged := (if request ub = [] then Some zeros else merged ub),
              request := request ub @ [req_meta]\<rparr>"
  have sync: "DataHandleRowSparse env ty req_meta req_data s =
        ApplyUpdates env ty master_key req_data (set_update_buf master_key ?ub' s)"
    if "sync_mode s"
    using that ks psh ln init inv
    unfolding DataHandleRowSparse_def mkey [symmetric] ub [symmetric] mp [symmetric]
    by (auto simp: Let_def tmp zeros mkey [symmetric] ub [symmetric] mp [symmetric])
  have barrier: "ApplyUpdates env ty master_key req_data (set_update_buf master_key ?ub' s) =
        Inr (set_update_buf master_key ?ub' s)"
    if "sync_mode s" "length (request ub) + 1 \<noteq> NumWorkers env"
    using that by (simp add: ApplyUpdates_def set_update_buf_def)
  have async: "DataHandleRowSparse env ty req_meta req_data s =
        Inr (emit (Response req_meta) (set_update_buf master_key (ub\<lparr>temp_array := tmp\<rparr>) s))"
    if "\<not> sync_mode s"
    using that ks psh ln init
    unfolding DataHandleRowSparse_def mkey [symmetric] ub [symmetric] mp [symmetric]
    by (auto simp: Let_def tmp mkey [symmetric] ub [symmetric] mp [symmetric])
  have same: "set_update_buf master_key (ub\<lparr>temp_array := tmp\<rparr>) s = s"
    if "mp \<longrightarrow> temp_array ub \<noteq> None"
    using that by (auto simp: tmp ub set_update_buf_same)
  show ?thesis using sync barrier async same by auto
qed

text \<open>
  The theorem on a first zero-row push of master key 100 in sync mode with two workers:
  the request is pending and \<^verbatim>\<open>merged\<close> is a new array without rows.
\<close>

theorem RowSparse_push_no_rows_witness:
  "DataHandleRowSparse env_example \<lparr>requestType = kRowSparsePushPull, dtype = 2\<rparr>
     (meta_example 8 True False 9) \<lparr>keys = [100], vals = [], lens = [0]\<rparr>
     (server_empty\<lparr>store := [(100, \<lparr>nd_storage_type = kRowSparseStorage, nd_shape = [3, 1],
                                  nd_dtype = 2, nd_data = [1, 1, 2, 2, 3, 3], nd_idx = [0, 1, 2]\<rparr>)]\<rparr>)
   = Inr (set_update_buf 100
            \<lparr>request = [meta_example 8 True False 9],
             merged = Some (NDArray_new kRowSparseStorage [3, 1] 2), temp_array = None\<rparr>
            (server_empty\<lparr>store := [(100, \<lparr>nd_storage_type = kRowSparseStorage, nd_shape = [3, 1],
                                  nd_dtype = 2, nd_data = [1, 1, 2, 2, 3, 3], nd_idx = [0, 1, 2]\<rparr>)]\<rparr>))"
proof -
  let ?stored = "\<lparr>nd_storage_type = kRowSparseStorage, nd_shape = [3, 1],
                  nd_dtype = 2, nd_data = [1, 1, 2, 2, 3, 3], nd_idx = [0, 1, 2]\<rparr>"
  let ?s = "server_empty\<lparr>store := [(100, ?stored)]\<rparr>"
  let ?ty = "\<lparr>requestType = kRowSparsePushPull, dtype = 2\<rparr>"
  let ?m = "meta_example 8 True False 9"
  let ?d = "\<lparr>keys = [100], vals = [], lens = [0]\<rparr>"
  have d: "DecodeKey env_example 100 = 100" by (simp add: DecodeKey_example)
  have mp: "\<not> has_multi_precision_copy env_example ?s ?ty"
    by (simp add: has_multi_precision_copy_def server_empty_def)
  have ub: "update_buf ?s 100 = UpdateBuf_empty" by (simp add: server_empty_def)
  have sync: "sync_mode ?s" by (simp add: server_empty_def)
  have n: "NumWorkers env_example = 2" by (simp add: env_example_def)
  have len: "length (request UpdateBuf_empty) + 1 \<noteq> NumWorkers env_example"
    by (simp add: UpdateBuf_empty_def n)
  have h: "keys ?d = [100]" "push ?m" "lens ?d \<noteq> []" "lens ?d ! 0 = 0"
    "100 = DecodeKey env_example 100" "map_of (store ?s) 100 = Some ?stored"
    "UpdateBuf_empty = update_buf ?s 100"
    "request UpdateBuf_empty \<noteq> [] \<longrightarrow> merged UpdateBuf_empty \<noteq> None"
    "False = has_multi_precision_copy env_example ?s ?ty"
    "None = (if False \<and> temp_array UpdateBuf_empty = None
             then Some (NDArray_new kRowSparseStorage (nd_shape ?stored) (kFloat32 env_example))
             else temp_array UpdateBuf_empty)"
    "NDArray_new kRowSparseStorage [3, 1] 2 =
       NDArray_new kRowSparseStorage (nd_shape ?stored) (if False then kFloat32 env_example else dtype ?ty)"
    using d mp ub by (simp_all add: meta_example_def UpdateBuf_empty_def)
  note th = RowSparse_push_no_rows [OF h]
  have "sync_mode ?s \<and> length (request UpdateBuf_empty) + 1 \<noteq> NumWorkers env_example \<longrightarrow>
          DataHandleRowSparse env_example ?ty ?m ?d ?s =
            Inr (set_update_buf 100
              (UpdateBuf_empty\<lparr>temp_array := None,
                 merged := (if request UpdateBuf_empty = []
                            then Some (NDArray_new kRowSparseStorage [3, 1] 2)
                            else merged UpdateBuf_empty),
                 request := request UpdateBuf_empty @ [?m]\<rparr>) ?s)"
    by (rule conjunct1 [OF conjunct2 [OF th]])
  with sync len have "DataHandleRowSparse env_example ?ty ?m ?d ?s =
            Inr (set_update_buf 100
              (UpdateBuf_empty\<lparr>temp_array := None,
                 merged := (if request UpdateBuf_empty = []
                            then Some (NDArray_new kRowSparseStorage [3, 1] 2)
                            else merged UpdateBuf_empty),
                 request := request UpdateBuf_empty @ [?m]\<rparr>) ?s)"
    by blast
  then show ?thesis by (simp add: UpdateBuf_empty_def)
qed

text \<open>
  The claim as it was stated fails in async mode under mixed precision: after
  \<open>msgs_row_sparse\<close> the zero-row push of master key 100 is acknowledged and
  allocates \<^verbatim>\<open>temp_array\<close>.
\<close>

theorem RowSparse_push_no_rows_allocates:
  "\<not> sync_mode (projr (serve env_example msgs_row_sparse (Run (KVStoreDistServer_new False))))
   \<and> temp_array (update_buf (projr (serve env_example msgs_row_sparse
         (Run (KVStoreDistServer_new False)))) 100) = None
   \<and> \<not> isl (serve env_example
         (msgs_row_sparse @ [Data (meta_example 8 True False 10) \<lparr>keys = [100], vals = [], lens = [0]\<rparr>])
         (Run (KVStoreDistServer_new False)))
   \<and> temp_array (update_buf (projr (serve env_example
         (msgs_row_sparse @ [Data (meta_example 8 True False 10) \<lparr>keys = [100], vals = [], lens = [0]\<rparr>])
         (Run (KVStoreDistServer_new False)))) 100) = Some (NDArray_new kRowSparseStorage [3, 1] 0)"
  by (simp add: serve_defs msgs_row_sparse_def Depair_example_rsp_f16)

end
